theory Spec2Isabelle
  imports Main "HOL-Library.Word"
begin

section \<open>The V-Inference escrow contract (\<^verbatim>\<open>src/backend/contracts/Escrow.sol\<close>)\<close>

text \<open>
  A shallow embedding of the contract \<^verbatim>\<open>VInferenceEscrow\<close>. Every external function
  of the contract is a HOL function from the call context and the contract's storage to
  either an error (the \<^verbatim>\<open>require\<close> that failed) or the storage after the call.

  Conventions of the embedding:
  \<^item> \<^verbatim>\<open>uint256\<close> and \<^verbatim>\<open>bytes32\<close> are 256-bit words, \<^verbatim>\<open>address\<close> is a 160-bit word.
    The contract is compiled with Solidity 0.8, whose \<^verbatim>\<open>+\<close> and \<^verbatim>\<open>-\<close> revert on
    overflow and underflow; the checked operations below return an error there.
  \<^item> A failed \<^verbatim>\<open>require\<close> reverts the transaction: the storage after a failed call is
    the storage before it. A function body therefore returns \<open>Inl\<close> of the error and
    no storage, and \<open>transact\<close> keeps the old storage in that case.
  \<^item> An external call hands control to the callee, which may call back into the escrow
    contract before it returns. The call context supplies what the callee does: whether
    a payee accepts a payment, what the verifier contract answers, and the calls into
    the escrow contract that each of them makes meanwhile.
  \<^item> Events do not influence storage and are left out.
\<close>

subsection \<open>Data\<close>

type_synonym address = "160 word"
type_synonym uint256 = "256 word"
type_synonym bytes32 = "256 word"
type_synonym bytes = "8 word list"

text \<open>\<^verbatim>\<open>struct EscrowRecord\<close>, lines 17-25.\<close>

record EscrowRecord =
  buyer :: address
  provider :: address
  amount :: uint256
  createdAt :: uint256
  isReleased :: bool
  isRefunded :: bool
  proofHash :: bytes32

text \<open>
  The storage of the contract (lines 13-34) together with the two facts about the
  contract's account that the code reads: its own address and its ether balance
  (\<^verbatim>\<open>address(this).balance\<close>). A Solidity mapping is total: an absent key reads as the
  zero value.
\<close>

record ledger =
  owner :: address
  verifierContract :: address
  escrows :: "bytes32 \<Rightarrow> EscrowRecord"
  lockedBalance :: "address \<Rightarrow> uint256"
  providerEarnings :: "address \<Rightarrow> uint256"
  this_address :: address
  this_balance :: nat

text \<open>
  What a low-level \<^verbatim>\<open>call\<close> gives back: it either reverted, or it returned with some
  return data.
\<close>

datatype call_result = CallReverted | CallReturned bytes

text \<open>
  The external functions of the contract with their arguments; the first argument of
  \<open>CreateEscrow\<close> and the argument of \<open>Receive\<close> are \<^verbatim>\<open>msg.value\<close>.
\<close>

datatype call =
    CreateEscrow uint256 bytes32 address
  | ReleaseEscrow bytes32 bytes32
  | ReleaseWithProof bytes32 bytes "uint256 list"
  | RefundEscrow bytes32 string
  | SetVerifier address
  | TransferOwnership address
  | EmergencyWithdraw
  | Receive uint256

text \<open>
  A call into the escrow contract that a callee makes while it runs:
  \<open>Nested a c r vs b ps\<close> is the call \<open>c\<close> with \<^verbatim>\<open>msg.sender\<close> \<open>a\<close>. When \<open>c\<close> calls the
  verifier, the verifier answers \<open>r\<close> and meanwhile makes the calls \<open>vs\<close> into the
  escrow contract; when \<open>c\<close> pays, the payee accepts the payment if \<open>b\<close> holds and
  meanwhile makes the calls \<open>ps\<close>.
\<close>

datatype nested_call =
  Nested address call call_result "nested_call list" bool "nested_call list"

text \<open>
  The context of one call: \<^verbatim>\<open>msg.sender\<close>, \<^verbatim>\<open>block.timestamp\<close>, and the behaviour of
  the world outside the contract during this call.
  \<^item> \<open>accepts a v\<close>: a plain payment of \<open>v\<close> wei to account \<open>a\<close> is accepted, that is,
    the code of \<open>a\<close> that receives it returns without reverting.
  \<^item> \<open>verifier_answer a p xs\<close>: the result of calling \<^verbatim>\<open>verify(bytes,uint256[])\<close> with
    arguments \<open>p\<close>, \<open>xs\<close> on the account \<open>a\<close>.
  \<^item> \<open>keccak256\<close>: the hash function.
  \<^item> \<open>verifier_calls\<close>: the calls into the escrow contract that the verifier makes,
    in this order, while it is called.
  \<^item> \<open>payee_calls\<close>: the calls into the escrow contract that the payee makes, in this
    order, while it receives a payment.
\<close>

record env =
  msg_sender :: address
  block_timestamp :: uint256
  accepts :: "address \<Rightarrow> nat \<Rightarrow> bool"
  verifier_answer :: "address \<Rightarrow> bytes \<Rightarrow> uint256 list \<Rightarrow> call_result"
  keccak256 :: "bytes \<Rightarrow> bytes32"
  verifier_calls :: "nested_call list"
  payee_calls :: "nested_call list"

text \<open>
  The reasons for which a call reverts, one per \<^verbatim>\<open>require\<close> message of the source, and
  \<open>ArithmeticPanic\<close> for the overflow check of checked arithmetic.
\<close>

datatype error =
    MustSendETH
  | InvalidProviderZero
  | CannotEscrowToSelf
  | EscrowAlreadyExists
  | EscrowDoesNotExist
  | AlreadyReleased
  | AlreadyRefunded
  | NotAuthorized
  | CannotRefundYet
  | VerifierNotSet
  | ProofVerificationFailed
  | TransferFailedErr
  | OnlyOwner
  | InvalidAddress
  | ArithmeticPanic

text \<open>
  The error names of the specification (section 4.1), and the name under which each
  revert reason of the source appears there. The specification has no name for the
  administrator checks and for the arithmetic panic.
\<close>

datatype spec_error =
    InvalidAmount
  | InvalidProvider
  | DuplicateJob
  | NotFound
  | AlreadySettled
  | Unauthorized
  | TooEarly
  | VerifierNotConfigured
  | VerificationFailed
  | TransferFailed
  | Unnamed

fun spec_error_of :: "error \<Rightarrow> spec_error" where
  "spec_error_of MustSendETH = InvalidAmount"
| "spec_error_of InvalidProviderZero = InvalidProvider"
| "spec_error_of CannotEscrowToSelf = InvalidProvider"
| "spec_error_of EscrowAlreadyExists = DuplicateJob"
| "spec_error_of EscrowDoesNotExist = NotFound"
| "spec_error_of AlreadyReleased = AlreadySettled"
| "spec_error_of AlreadyRefunded = AlreadySettled"
| "spec_error_of NotAuthorized = Unauthorized"
| "spec_error_of CannotRefundYet = TooEarly"
| "spec_error_of VerifierNotSet = VerifierNotConfigured"
| "spec_error_of ProofVerificationFailed = VerificationFailed"
| "spec_error_of TransferFailedErr = TransferFailed"
| "spec_error_of OnlyOwner = Unnamed"
| "spec_error_of InvalidAddress = Unnamed"
| "spec_error_of ArithmeticPanic = Unnamed"

subsection \<open>Reverting, checked arithmetic and payments\<close>

text \<open>
  Statements run in sequence until one reverts: \<open>and_then r f\<close> continues with \<open>f\<close>
  when \<open>r\<close> did not revert. \<^verbatim>\<open>require(c, msg)\<close> reverts with the error for \<open>msg\<close> when
  \<open>c\<close> is false.
\<close>

fun and_then :: "error + 'a \<Rightarrow> ('a \<Rightarrow> error + 'b) \<Rightarrow> error + 'b" where
  "and_then (Inl err) f = Inl err"
| "and_then (Inr x) f = f x"

definition require :: "bool \<Rightarrow> error \<Rightarrow> error + unit" where
  "require c err = (if c then Inr () else Inl err)"

definition checked_add :: "uint256 \<Rightarrow> uint256 \<Rightarrow> error + uint256" where
  "checked_add a b = (if unat a + unat b < 2 ^ 256 then Inr (a + b) else Inl ArithmeticPanic)"

definition checked_sub :: "uint256 \<Rightarrow> uint256 \<Rightarrow> error + uint256" where
  "checked_sub a b = (if unat b \<le> unat a then Inr (a - b) else Inl ArithmeticPanic)"

text \<open>\<^verbatim>\<open>24 hours\<close> in seconds.\<close>

definition hours24 :: uint256 where
  "hours24 = 86400"

text \<open>
  What a callee does to the storage of the escrow contract while it runs, through the
  calls it makes back into the contract.
\<close>

type_synonym callback = "ledger \<Rightarrow> ledger"

text \<open>
  \<^verbatim>\<open>payable(to).call{value: v}("")\<close> followed by \<^verbatim>\<open>require(success, "Transfer failed")\<close>.
  The call fails when the contract holds less than \<open>v\<close> or when the payee does not accept
  the payment; otherwise \<open>v\<close> leaves the contract's balance and the payee, which gets
  all remaining gas, runs: \<open>cb\<close> is what it does to the storage by calling back. A payment
  of the contract to itself runs its empty \<^verbatim>\<open>receive\<close> function and leaves the balance as
  it is.
\<close>

definition call_value_with ::
  "callback \<Rightarrow> env \<Rightarrow> address \<Rightarrow> nat \<Rightarrow> ledger \<Rightarrow> ledger option" where
  "call_value_with cb e to v s =
     (if this_balance s < v then None
      else if to = this_address s then Some s
      else if accepts e to v then Some (cb (s\<lparr>this_balance := this_balance s - v\<rparr>))
      else None)"

definition transfer_or_revert_with ::
  "callback \<Rightarrow> env \<Rightarrow> address \<Rightarrow> nat \<Rightarrow> ledger \<Rightarrow> error + ledger" where
  "transfer_or_revert_with cb e to v s =
     (case call_value_with cb e to v s of None \<Rightarrow> Inl TransferFailedErr | Some s' \<Rightarrow> Inr s')"

subsection \<open>Modifiers (lines 63-77)\<close>

definition onlyOwner :: "env \<Rightarrow> ledger \<Rightarrow> error + unit" where
  "onlyOwner e s = require (msg_sender e = owner s) OnlyOwner"

definition escrowExists :: "bytes32 \<Rightarrow> ledger \<Rightarrow> error + unit" where
  "escrowExists jobId s = require (0 < amount (escrows s jobId)) EscrowDoesNotExist"

definition escrowNotSettled :: "bytes32 \<Rightarrow> ledger \<Rightarrow> error + unit" where
  "escrowNotSettled jobId s =
     and_then (require (\<not> isReleased (escrows s jobId)) AlreadyReleased) (\<lambda>_.
     require (\<not> isRefunded (escrows s jobId)) AlreadyRefunded)"

subsection \<open>Constructor (lines 81-83)\<close>

definition zero_record :: EscrowRecord where
  "zero_record = \<lparr>buyer = 0, provider = 0, amount = 0, createdAt = 0,
                   isReleased = False, isRefunded = False, proofHash = 0\<rparr>"

text \<open>
  \<open>deployer\<close> is \<^verbatim>\<open>msg.sender\<close> of the deployment, \<open>self\<close> the address the contract gets.
\<close>

definition constructor :: "address \<Rightarrow> address \<Rightarrow> ledger" where
  "constructor deployer self =
     \<lparr>owner = deployer, verifierContract = 0, escrows = (\<lambda>_. zero_record),
      lockedBalance = (\<lambda>_. 0), providerEarnings = (\<lambda>_. 0),
      this_address = self, this_balance = 0\<rparr>"

subsection \<open>createEscrow (lines 92-114)\<close>

text \<open>
  The function is payable: \<open>msg_value\<close> is \<^verbatim>\<open>msg.value\<close>, which is part of the contract's
  balance when the call succeeds.
\<close>

definition createEscrow :: "env \<Rightarrow> uint256 \<Rightarrow> bytes32 \<Rightarrow> address \<Rightarrow> ledger \<Rightarrow> error + ledger" where
  "createEscrow e msg_value jobId prov s =
     and_then (require (0 < msg_value) MustSendETH) (\<lambda>_.
     and_then (require (prov \<noteq> 0) InvalidProviderZero) (\<lambda>_.
     and_then (require (prov \<noteq> msg_sender e) CannotEscrowToSelf) (\<lambda>_.
     and_then (require (amount (escrows s jobId) = 0) EscrowAlreadyExists) (\<lambda>_.
     let s1 = s\<lparr>escrows := (escrows s)(jobId :=
                  \<lparr>buyer = msg_sender e, provider = prov, amount = msg_value,
                   createdAt = block_timestamp e, isReleased = False,
                   isRefunded = False, proofHash = 0\<rparr>)\<rparr>
     in and_then (checked_add (lockedBalance s1 (msg_sender e)) msg_value) (\<lambda>lb.
        Inr (s1\<lparr>lockedBalance := (lockedBalance s1)(msg_sender e := lb),
                this_balance := this_balance s1 + unat msg_value\<rparr>))))))"

subsection \<open>releaseEscrow (lines 121-149) and releaseWithProof (lines 157-188)\<close>

text \<open>
  Lines 136-142 and 175-181, the same in both functions up to the hash that is stored:
  mark the record released, store the hash, move the amount from the buyer's locked
  balance to the provider's earnings.
\<close>

definition release_effects :: "bytes32 \<Rightarrow> bytes32 \<Rightarrow> ledger \<Rightarrow> error + ledger" where
  "release_effects jobId ph s =
     (let s1 = s\<lparr>escrows := (escrows s)(jobId :=
                  (escrows s jobId)\<lparr>isReleased := True, proofHash := ph\<rparr>)\<rparr>;
          r = escrows s1 jobId
      in and_then (checked_sub (lockedBalance s1 (buyer r)) (amount r)) (\<lambda>lb.
         let s2 = s1\<lparr>lockedBalance := (lockedBalance s1)(buyer r := lb)\<rparr>
         in and_then (checked_add (providerEarnings s2 (provider r)) (amount r)) (\<lambda>pe.
            Inr (s2\<lparr>providerEarnings := (providerEarnings s2)(provider r := pe)\<rparr>))))"

text \<open>
  Lines 145-146 and 184-185: pay the provider, revert when the payment fails. In the
  functions named \<open>_with\<close>, the argument \<open>cb\<close> is what the payee does to the storage while
  it is paid, and \<open>cbv\<close> what the verifier does to it while it is called.
\<close>

definition pay_provider_with :: "callback \<Rightarrow> env \<Rightarrow> bytes32 \<Rightarrow> ledger \<Rightarrow> error + ledger" where
  "pay_provider_with cb e jobId s =
     transfer_or_revert_with cb e (provider (escrows s jobId))
       (unat (amount (escrows s jobId))) s"

definition releaseEscrow_with ::
  "callback \<Rightarrow> env \<Rightarrow> bytes32 \<Rightarrow> bytes32 \<Rightarrow> ledger \<Rightarrow> error + ledger" where
  "releaseEscrow_with cb e jobId ph s =
     and_then (escrowExists jobId s) (\<lambda>_.
     and_then (escrowNotSettled jobId s) (\<lambda>_.
     and_then (require (msg_sender e = buyer (escrows s jobId) \<or> msg_sender e = owner s)
                 NotAuthorized) (\<lambda>_.
     and_then (release_effects jobId ph s) (\<lambda>s1.
     pay_provider_with cb e jobId s1))))"

text \<open>
  Lines 168-170: \<^verbatim>\<open>(bool verified, ) = verifierContract.call(...)\<close>. The first component
  of the result of a low-level call says whether the call returned without reverting;
  the return data, the second component, is discarded by the source. The verifier gets
  all remaining gas; when it returns, the storage is what its calls back into the
  contract have made of it, and when it reverts, the storage is as before.
\<close>

definition call_verifier ::
  "callback \<Rightarrow> env \<Rightarrow> bytes \<Rightarrow> uint256 list \<Rightarrow> ledger \<Rightarrow> bool \<times> ledger" where
  "call_verifier cbv e pf publicInputs s =
     (case verifier_answer e (verifierContract s) pf publicInputs of
        CallReverted \<Rightarrow> (False, s)
      | CallReturned _ \<Rightarrow> (True, cbv s))"

text \<open>
  The modifiers run on entry; the verifier is called after them and before the record
  is marked (line 176).
\<close>

definition releaseWithProof_with ::
  "callback \<Rightarrow> callback \<Rightarrow> env \<Rightarrow> bytes32 \<Rightarrow> bytes \<Rightarrow> uint256 list \<Rightarrow> ledger
     \<Rightarrow> error + ledger" where
  "releaseWithProof_with cbv cb e jobId pf publicInputs s =
     and_then (escrowExists jobId s) (\<lambda>_.
     and_then (escrowNotSettled jobId s) (\<lambda>_.
     and_then (require (verifierContract s \<noteq> 0) VerifierNotSet) (\<lambda>_.
     case call_verifier cbv e pf publicInputs s of (verified, sv) \<Rightarrow>
     and_then (require verified ProofVerificationFailed) (\<lambda>_.
     and_then (release_effects jobId (keccak256 e pf) sv) (\<lambda>s1.
     pay_provider_with cb e jobId s1)))))"

subsection \<open>refundEscrow (lines 195-229)\<close>

text \<open>
  Lines 211-216. The left operand of \<^verbatim>\<open>||\<close> is evaluated first, with its checked
  addition.
\<close>

definition refund_time_gate :: "env \<Rightarrow> bytes32 \<Rightarrow> ledger \<Rightarrow> error + unit" where
  "refund_time_gate e jobId s =
     (if msg_sender e = buyer (escrows s jobId) then
        and_then (checked_add (createdAt (escrows s jobId)) hours24) (\<lambda>deadline.
        require (deadline < block_timestamp e \<or> msg_sender e = owner s) CannotRefundYet)
      else Inr ())"

text \<open>Lines 218-222: mark the record refunded, lower the buyer's locked balance.\<close>

definition refund_effects :: "bytes32 \<Rightarrow> ledger \<Rightarrow> error + ledger" where
  "refund_effects jobId s =
     (let s1 = s\<lparr>escrows := (escrows s)(jobId := (escrows s jobId)\<lparr>isRefunded := True\<rparr>)\<rparr>;
          r = escrows s1 jobId
      in and_then (checked_sub (lockedBalance s1 (buyer r)) (amount r)) (\<lambda>lb.
         Inr (s1\<lparr>lockedBalance := (lockedBalance s1)(buyer r := lb)\<rparr>)))"

text \<open>Lines 225-226: pay the buyer back, revert when the payment fails.\<close>

definition pay_buyer_with :: "callback \<Rightarrow> env \<Rightarrow> bytes32 \<Rightarrow> ledger \<Rightarrow> error + ledger" where
  "pay_buyer_with cb e jobId s =
     transfer_or_revert_with cb e (buyer (escrows s jobId))
       (unat (amount (escrows s jobId))) s"

definition refundEscrow_with ::
  "callback \<Rightarrow> env \<Rightarrow> bytes32 \<Rightarrow> string \<Rightarrow> ledger \<Rightarrow> error + ledger" where
  "refundEscrow_with cb e jobId reason s =
     and_then (escrowExists jobId s) (\<lambda>_.
     and_then (escrowNotSettled jobId s) (\<lambda>_.
     and_then (require (msg_sender e = buyer (escrows s jobId) \<or> msg_sender e = owner s)
                 NotAuthorized) (\<lambda>_.
     and_then (refund_time_gate e jobId s) (\<lambda>_.
     and_then (refund_effects jobId s) (\<lambda>s1.
     pay_buyer_with cb e jobId s1)))))"

subsection \<open>View functions (lines 236-263)\<close>

definition getEscrow :: "bytes32 \<Rightarrow> ledger \<Rightarrow> EscrowRecord" where
  "getEscrow jobId s = escrows s jobId"

definition isPending :: "bytes32 \<Rightarrow> ledger \<Rightarrow> bool" where
  "isPending jobId s =
     (0 < amount (escrows s jobId) \<and> \<not> isReleased (escrows s jobId)
        \<and> \<not> isRefunded (escrows s jobId))"

subsection \<open>Administrator functions (lines 270-290) and receive (line 294)\<close>

definition setVerifier :: "env \<Rightarrow> address \<Rightarrow> ledger \<Rightarrow> error + ledger" where
  "setVerifier e v s =
     and_then (onlyOwner e s) (\<lambda>_. Inr (s\<lparr>verifierContract := v\<rparr>))"

definition transferOwnership :: "env \<Rightarrow> address \<Rightarrow> ledger \<Rightarrow> error + ledger" where
  "transferOwnership e newOwner s =
     and_then (onlyOwner e s) (\<lambda>_.
     and_then (require (newOwner \<noteq> 0) InvalidAddress) (\<lambda>_.
     Inr (s\<lparr>owner := newOwner\<rparr>)))"

text \<open>The whole balance of the contract, \<^verbatim>\<open>address(this).balance\<close>, goes to the owner.\<close>

definition emergencyWithdraw_with :: "callback \<Rightarrow> env \<Rightarrow> ledger \<Rightarrow> error + ledger" where
  "emergencyWithdraw_with cb e s =
     and_then (onlyOwner e s) (\<lambda>_.
     transfer_or_revert_with cb e (owner s) (this_balance s) s)"

definition receive_ether :: "uint256 \<Rightarrow> ledger \<Rightarrow> error + ledger" where
  "receive_ether msg_value s = Inr (s\<lparr>this_balance := this_balance s + unat msg_value\<rparr>)"

subsection \<open>Calls, nested calls and transactions\<close>

text \<open>
  A call of an external function, given what the verifier (\<open>cbv\<close>) and the payee (\<open>cb\<close>)
  do to the storage while the function calls them.
\<close>

fun dispatch_with :: "callback \<Rightarrow> callback \<Rightarrow> env \<Rightarrow> call \<Rightarrow> ledger \<Rightarrow> error + ledger" where
  "dispatch_with cbv cb e (CreateEscrow v jobId prov) s = createEscrow e v jobId prov s"
| "dispatch_with cbv cb e (ReleaseEscrow jobId ph) s = releaseEscrow_with cb e jobId ph s"
| "dispatch_with cbv cb e (ReleaseWithProof jobId pf xs) s =
     releaseWithProof_with cbv cb e jobId pf xs s"
| "dispatch_with cbv cb e (RefundEscrow jobId reason) s = refundEscrow_with cb e jobId reason s"
| "dispatch_with cbv cb e (SetVerifier v) s = setVerifier e v s"
| "dispatch_with cbv cb e (TransferOwnership a) s = transferOwnership e a s"
| "dispatch_with cbv cb e EmergencyWithdraw s = emergencyWithdraw_with cb e s"
| "dispatch_with cbv cb e (Receive v) s = receive_ether v s"

text \<open>A call that reverts leaves the storage as it was.\<close>

definition settle :: "error + ledger \<Rightarrow> ledger \<Rightarrow> ledger" where
  "settle r s = (case r of Inl _ \<Rightarrow> s | Inr s' \<Rightarrow> s')"

text \<open>Callees run one after the other, each in the context \<open>e\<close>.\<close>

definition run_all :: "(env \<Rightarrow> callback) list \<Rightarrow> env \<Rightarrow> callback" where
  "run_all fs e s = fold (\<lambda>f. f e) fs s"

text \<open>
  A nested call runs in the transaction of the call that caused it: same block and hash
  function, its own \<^verbatim>\<open>msg.sender\<close>, and its own answers of the verifier and the payee
  that it calls. The callee that made it goes on when it reverts; a callee that wants to
  fail with it is one whose own call reverts (\<open>accepts\<close>, \<open>verifier_answer\<close>).
\<close>

primrec exec :: "nested_call \<Rightarrow> env \<Rightarrow> callback" where
  "exec (Nested a c r vs b ps) =
     (\<lambda>e s. settle (dispatch_with (run_all (map exec vs) e) (run_all (map exec ps) e)
                       (e\<lparr>msg_sender := a, verifier_answer := (\<lambda>_ _ _. r),
                          accepts := (\<lambda>_ _. b)\<rparr>) c s) s)"

definition run_calls :: "nested_call list \<Rightarrow> env \<Rightarrow> callback" where
  "run_calls cs e = run_all (map exec cs) e"

text \<open>
  The external functions as a transaction calls them: the verifier and the payee make
  the calls that the context \<open>e\<close> lists for them.
\<close>

definition pay_provider :: "env \<Rightarrow> bytes32 \<Rightarrow> ledger \<Rightarrow> error + ledger" where
  "pay_provider e = pay_provider_with (run_calls (payee_calls e) e) e"

definition pay_buyer :: "env \<Rightarrow> bytes32 \<Rightarrow> ledger \<Rightarrow> error + ledger" where
  "pay_buyer e = pay_buyer_with (run_calls (payee_calls e) e) e"

definition releaseEscrow :: "env \<Rightarrow> bytes32 \<Rightarrow> bytes32 \<Rightarrow> ledger \<Rightarrow> error + ledger" where
  "releaseEscrow e = releaseEscrow_with (run_calls (payee_calls e) e) e"

definition releaseWithProof ::
  "env \<Rightarrow> bytes32 \<Rightarrow> bytes \<Rightarrow> uint256 list \<Rightarrow> ledger \<Rightarrow> error + ledger" where
  "releaseWithProof e =
     releaseWithProof_with (run_calls (verifier_calls e) e) (run_calls (payee_calls e) e) e"

definition refundEscrow :: "env \<Rightarrow> bytes32 \<Rightarrow> string \<Rightarrow> ledger \<Rightarrow> error + ledger" where
  "refundEscrow e = refundEscrow_with (run_calls (payee_calls e) e) e"

definition emergencyWithdraw :: "env \<Rightarrow> ledger \<Rightarrow> error + ledger" where
  "emergencyWithdraw e = emergencyWithdraw_with (run_calls (payee_calls e) e) e"

definition dispatch :: "env \<Rightarrow> call \<Rightarrow> ledger \<Rightarrow> error + ledger" where
  "dispatch e = dispatch_with (run_calls (verifier_calls e) e) (run_calls (payee_calls e) e) e"

text \<open>One transaction: a call that reverts leaves the storage as it was.\<close>

definition transact :: "env \<Rightarrow> call \<Rightarrow> ledger \<Rightarrow> ledger" where
  "transact e c s = settle (dispatch e c s) s"

text \<open>The error a transaction reports, if it reverts.\<close>

definition outcome :: "env \<Rightarrow> call \<Rightarrow> ledger \<Rightarrow> error option" where
  "outcome e c s = (case dispatch e c s of Inl err \<Rightarrow> Some err | Inr _ \<Rightarrow> None)"

fun run :: "(env \<times> call) list \<Rightarrow> ledger \<Rightarrow> ledger" where
  "run [] s = s"
| "run ((e, c) # cs) s = run cs (transact e c s)"

subsection \<open>How records evolve\<close>

text \<open>
  A record is settled when one of its two flags is set. From the storage before a call
  to the storage after it, nested calls included, every record keeps its amount once
  that is positive, stays as it is once it is settled with a positive amount, and has a
  positive amount when it becomes settled.
\<close>

definition settled :: "EscrowRecord \<Rightarrow> bool" where
  "settled r = (isReleased r \<or> isRefunded r)"

definition record_evolves :: "EscrowRecord \<Rightarrow> EscrowRecord \<Rightarrow> bool" where
  "record_evolves r r' =
     ((0 < amount r \<longrightarrow> amount r' = amount r)
      \<and> (0 < amount r \<and> settled r \<longrightarrow> r' = r)
      \<and> (settled r' \<and> \<not> settled r \<longrightarrow> 0 < amount r'))"

definition ledger_evolves :: "ledger \<Rightarrow> ledger \<Rightarrow> bool" where
  "ledger_evolves s s' = (\<forall>jobId. record_evolves (escrows s jobId) (escrows s' jobId))"

definition record_ok :: "EscrowRecord \<Rightarrow> bool" where
  "record_ok r = (settled r \<longrightarrow> 0 < amount r)"

definition ledger_ok :: "ledger \<Rightarrow> bool" where
  "ledger_ok s = (\<forall>jobId. record_ok (escrows s jobId))"

subsection \<open>A concrete scenario\<close>

text \<open>
  The administrator has address 1 and deploys the contract at address 100; the buyer has
  address 2, the provider address 3, a verifier contract address 4, and address 5
  belongs to a stranger. The ABI encoding of a \<^verbatim>\<open>bool\<close> is one 32-byte word.
\<close>

definition abi_encode_bool :: "bool \<Rightarrow> bytes" where
  "abi_encode_bool b = replicate 31 0 @ [if b then 1 else 0]"

text \<open>
  A world in which every payment is accepted and the verifier at address 4 executes
  \<^verbatim>\<open>verify\<close> and returns \<^verbatim>\<open>false\<close>; a call to any other account returns no data. No
  callee calls back into the contract.
\<close>

definition world :: "address \<Rightarrow> uint256 \<Rightarrow> env" where
  "world a t =
     \<lparr>msg_sender = a, block_timestamp = t, accepts = (\<lambda>_ _. True),
      verifier_answer = (\<lambda>v _ _. if v = 4 then CallReturned (abi_encode_bool False)
                                   else CallReturned []),
      keccak256 = (\<lambda>_. 7), verifier_calls = [], payee_calls = []\<rparr>"

text \<open>The same world, except that no payee accepts a payment.\<close>

definition world_rejecting :: "address \<Rightarrow> uint256 \<Rightarrow> env" where
  "world_rejecting a t = (world a t)\<lparr>accepts := (\<lambda>_ _. False)\<rparr>"

text \<open>The same world, except that the call to the verifier reverts.\<close>

definition world_reverting :: "address \<Rightarrow> uint256 \<Rightarrow> env" where
  "world_reverting a t = (world a t)\<lparr>verifier_answer := (\<lambda>_ _ _. CallReverted)\<rparr>"

definition deployed :: ledger where
  "deployed = constructor 1 100"

text \<open>The buyer has created job 9 for the provider with 10 wei at time 1000.\<close>

definition job9_pending :: ledger where
  "job9_pending = run [(world 2 1000, CreateEscrow 10 9 3)] deployed"

text \<open>After that, the administrator has configured the verifier at address 4.\<close>

definition job9_with_verifier :: ledger where
  "job9_with_verifier = run [(world 1 1001, SetVerifier 4)] job9_pending"

text \<open>Job 9 after the buyer has released it with proof hash 5.\<close>

definition job9_released :: ledger where
  "job9_released = run [(world 2 1002, ReleaseEscrow 9 5)] job9_pending"

text \<open>
  Worlds in which a callee calls back into the contract; the payments of the nested
  calls are accepted, and nobody calls back during a nested call.
  \<^item> The verifier at address 4, while it is called, calls \<open>refundEscrow\<close> on job 9.
  \<^item> The provider, while it is paid, calls \<open>releaseWithProof\<close> on job 10.
  \<^item> The buyer, while it is paid, calls \<open>createEscrow\<close> for a new job 8 with 10 wei.
  \<^item> The buyer, while it is paid, calls \<open>refundEscrow\<close> on job 10.
\<close>

definition world_verifier_refunds :: "address \<Rightarrow> uint256 \<Rightarrow> env" where
  "world_verifier_refunds a t =
     (world a t)\<lparr>verifier_calls := [Nested 4 (RefundEscrow 9 ''timeout'') (CallReturned []) [] True []]\<rparr>"

definition world_provider_releases :: "address \<Rightarrow> uint256 \<Rightarrow> env" where
  "world_provider_releases a t =
     (world a t)\<lparr>payee_calls := [Nested 3 (ReleaseWithProof 10 [1, 2] []) (CallReturned (abi_encode_bool False)) []
                                     True []]\<rparr>"

definition world_buyer_creates :: "address \<Rightarrow> uint256 \<Rightarrow> env" where
  "world_buyer_creates a t =
     (world a t)\<lparr>payee_calls := [Nested 2 (CreateEscrow 10 8 3) (CallReturned []) [] True []]\<rparr>"

definition world_buyer_refunds :: "address \<Rightarrow> uint256 \<Rightarrow> env" where
  "world_buyer_refunds a t =
     (world a t)\<lparr>payee_calls := [Nested 2 (RefundEscrow 10 ''timeout'') (CallReturned []) [] True []]\<rparr>"

text \<open>
  The buyer has created a second job, 10, for the same provider with 10 wei at time 1000,
  and the verifier at address 4 is configured.
\<close>

definition two_jobs :: ledger where
  "two_jobs = run [(world 2 1000, CreateEscrow 10 10 3)] job9_with_verifier"

text \<open>
  The contract at address 4 has created jobs 9 and 10 for the provider with 10 wei each
  at time 1000, and the administrator has configured the same contract as the verifier.
\<close>

definition verifier_is_buyer :: ledger where
  "verifier_is_buyer =
     run [(world 4 1000, CreateEscrow 10 9 3), (world 4 1000, CreateEscrow 10 10 3),
          (world 1 1001, SetVerifier 4)] deployed"

section \<open>Properties\<close>

subsection \<open>Auxiliary facts\<close>

lemma and_then_Inr_iff:
  "and_then r f = Inr y \<longleftrightarrow> (\<exists>x. r = Inr x \<and> f x = Inr y)"
  by (cases r) auto

lemma and_then_Inl_iff:
  "and_then r f = Inl err \<longleftrightarrow> r = Inl err \<or> (\<exists>x. r = Inr x \<and> f x = Inl err)"
  by (cases r) auto

lemma require_Inr_iff: "require c err = Inr u \<longleftrightarrow> c"
  by (simp add: require_def)

lemma require_Inl_iff: "require c err = Inl err' \<longleftrightarrow> \<not> c \<and> err' = err"
  by (auto simp: require_def)

lemma checked_add_Inr_iff:
  "checked_add a b = Inr c \<longleftrightarrow> unat a + unat b < 2 ^ 256 \<and> c = a + b"
  by (auto simp: checked_add_def)

lemma checked_sub_Inr_iff:
  "checked_sub a b = Inr c \<longleftrightarrow> unat b \<le> unat a \<and> c = a - b"
  by (auto simp: checked_sub_def)

lemma checked_add_Inl_iff:
  "checked_add a b = Inl err \<longleftrightarrow> \<not> unat a + unat b < 2 ^ 256 \<and> err = ArithmeticPanic"
  by (auto simp: checked_add_def)

lemma checked_sub_Inl_iff:
  "checked_sub a b = Inl err \<longleftrightarrow> \<not> unat b \<le> unat a \<and> err = ArithmeticPanic"
  by (auto simp: checked_sub_def)

lemma unat_checked_add:
  "unat a + unat b < 2 ^ 256 \<Longrightarrow> unat (a + b :: uint256) = unat a + unat b"
  by (simp add: unat_word_ariths)

lemma unat_checked_sub:
  "unat b \<le> unat a \<Longrightarrow> unat (a - b :: uint256) = unat a - unat b"
  by (simp add: unat_sub word_le_nat_alt)

lemma modifiers_Inr_iff:
  "escrowExists jobId s = Inr u \<longleftrightarrow> 0 < amount (escrows s jobId)"
  "escrowNotSettled jobId s = Inr u \<longleftrightarrow> \<not> settled (escrows s jobId)"
  "onlyOwner e s = Inr u \<longleftrightarrow> msg_sender e = owner s"
  by (auto simp: escrowExists_def escrowNotSettled_def onlyOwner_def settled_def
      and_then_Inr_iff require_Inr_iff)

lemma modifiers_Inl:
  "escrowExists jobId s = Inl err \<Longrightarrow> err = EscrowDoesNotExist"
  "escrowNotSettled jobId s = Inl err \<Longrightarrow> err = AlreadyReleased \<or> err = AlreadyRefunded"
  "onlyOwner e s = Inl err \<Longrightarrow> err = OnlyOwner"
  by (auto simp: escrowExists_def escrowNotSettled_def onlyOwner_def and_then_Inl_iff
      require_Inl_iff)

lemma pending_modifiers:
  "isPending jobId s \<Longrightarrow> escrowExists jobId s = Inr () \<and> escrowNotSettled jobId s = Inr ()"
  by (simp add: isPending_def escrowExists_def escrowNotSettled_def require_def)

lemma release_effects_Inr:
  "release_effects jobId ph s = Inr s' \<Longrightarrow>
     unat (amount (escrows s jobId)) \<le> unat (lockedBalance s (buyer (escrows s jobId))) \<and>
     unat (providerEarnings s (provider (escrows s jobId))) + unat (amount (escrows s jobId)) < 2 ^ 256 \<and>
     s' = s\<lparr>escrows := (escrows s)(jobId := (escrows s jobId)\<lparr>isReleased := True, proofHash := ph\<rparr>),
            lockedBalance := (lockedBalance s)(buyer (escrows s jobId) :=
               lockedBalance s (buyer (escrows s jobId)) - amount (escrows s jobId)),
            providerEarnings := (providerEarnings s)(provider (escrows s jobId) :=
               providerEarnings s (provider (escrows s jobId)) + amount (escrows s jobId))\<rparr>"
  by (auto simp: release_effects_def Let_def and_then_Inr_iff checked_add_Inr_iff checked_sub_Inr_iff)

lemma refund_effects_Inr:
  "refund_effects jobId s = Inr s' \<Longrightarrow>
     unat (amount (escrows s jobId)) \<le> unat (lockedBalance s (buyer (escrows s jobId))) \<and>
     s' = s\<lparr>escrows := (escrows s)(jobId := (escrows s jobId)\<lparr>isRefunded := True\<rparr>),
            lockedBalance := (lockedBalance s)(buyer (escrows s jobId) :=
               lockedBalance s (buyer (escrows s jobId)) - amount (escrows s jobId))\<rparr>"
  by (auto simp: refund_effects_def Let_def and_then_Inr_iff checked_sub_Inr_iff)

lemma release_effects_Inl: "release_effects jobId ph s = Inl err \<Longrightarrow> err = ArithmeticPanic"
  by (auto simp: release_effects_def Let_def and_then_Inl_iff checked_add_Inl_iff
      checked_sub_Inl_iff)

lemma refund_effects_Inl: "refund_effects jobId s = Inl err \<Longrightarrow> err = ArithmeticPanic"
  by (auto simp: refund_effects_def Let_def and_then_Inl_iff checked_sub_Inl_iff)

lemma refund_time_gate_Inl:
  "refund_time_gate e jobId s = Inl err \<Longrightarrow> err = ArithmeticPanic \<or> err = CannotRefundYet"
  by (auto simp: refund_time_gate_def and_then_Inl_iff checked_add_Inl_iff require_Inl_iff
      split: if_splits)

lemma createEscrow_Inr:
  "createEscrow e v jobId prov s = Inr s' \<Longrightarrow>
     0 < v \<and> prov \<noteq> 0 \<and> prov \<noteq> msg_sender e \<and> amount (escrows s jobId) = 0 \<and>
     unat (lockedBalance s (msg_sender e)) + unat v < 2 ^ 256 \<and>
     s' = s\<lparr>escrows := (escrows s)(jobId :=
               \<lparr>buyer = msg_sender e, provider = prov, amount = v,
                createdAt = block_timestamp e, isReleased = False,
                isRefunded = False, proofHash = 0\<rparr>),
            lockedBalance := (lockedBalance s)(msg_sender e := lockedBalance s (msg_sender e) + v),
            this_balance := this_balance s + unat v\<rparr>"
  by (auto simp: createEscrow_def Let_def and_then_Inr_iff require_Inr_iff checked_add_Inr_iff)

text \<open>Payments.\<close>

lemma transfer_or_revert_with_Inr:
  "transfer_or_revert_with cb e to v s = Inr s' \<Longrightarrow>
     v \<le> this_balance s \<and>
     (to = this_address s \<and> s' = s
      \<or> to \<noteq> this_address s \<and> accepts e to v
          \<and> s' = cb (s\<lparr>this_balance := this_balance s - v\<rparr>))"
  by (auto simp: transfer_or_revert_with_def call_value_with_def split: if_splits option.splits)

lemma transfer_or_revert_with_Inl:
  "transfer_or_revert_with cb e to v s = Inl err \<Longrightarrow> err = TransferFailedErr"
  by (auto simp: transfer_or_revert_with_def split: option.splits)

lemma transfer_or_revert_with_ok:
  "v \<le> this_balance s \<Longrightarrow> to = this_address s \<or> accepts e to v \<Longrightarrow>
     \<exists>s'. transfer_or_revert_with cb e to v s = Inr s'"
  by (auto simp: transfer_or_revert_with_def call_value_with_def)

text \<open>Evolution of records.\<close>

lemma record_evolves_refl: "record_evolves r r"
  by (simp add: record_evolves_def)

lemma record_evolves_trans:
  "record_evolves r r' \<Longrightarrow> record_evolves r' r'' \<Longrightarrow> record_evolves r r''"
  unfolding record_evolves_def by metis

lemma ledger_evolves_refl: "ledger_evolves s s"
  by (simp add: ledger_evolves_def record_evolves_refl)

lemma ledger_evolves_trans:
  "ledger_evolves s s' \<Longrightarrow> ledger_evolves s' s'' \<Longrightarrow> ledger_evolves s s''"
  unfolding ledger_evolves_def using record_evolves_trans by blast

lemma ledger_evolves_same_escrows: "escrows s' = escrows s \<Longrightarrow> ledger_evolves s s'"
  by (simp add: ledger_evolves_def record_evolves_refl)

lemma ledger_evolves_ok: "ledger_evolves s s' \<Longrightarrow> ledger_ok s \<Longrightarrow> ledger_ok s'"
  unfolding ledger_evolves_def ledger_ok_def record_evolves_def record_ok_def by metis

lemma ledger_evolves_settled:
  "ledger_evolves s s' \<Longrightarrow> 0 < amount (escrows s jobId) \<Longrightarrow> settled (escrows s jobId) \<Longrightarrow>
     escrows s' jobId = escrows s jobId"
  by (simp add: ledger_evolves_def record_evolves_def)

lemma ledger_evolves_amount:
  "ledger_evolves s s' \<Longrightarrow> 0 < amount (escrows s jobId) \<Longrightarrow>
     amount (escrows s' jobId) = amount (escrows s jobId)"
  by (simp add: ledger_evolves_def record_evolves_def)

lemma createEscrow_evolves:
  assumes "createEscrow e v j p s = Inr s'"
  shows "ledger_evolves s s'"
  unfolding ledger_evolves_def
proof
  fix jobId
  show "record_evolves (escrows s jobId) (escrows s' jobId)"
  proof (cases "jobId = j")
    case True
    with createEscrow_Inr [OF assms] show ?thesis
      by (simp add: record_evolves_def settled_def)
  next
    case False
    with createEscrow_Inr [OF assms] show ?thesis
      by (simp add: record_evolves_def)
  qed
qed

lemma release_effects_evolves:
  assumes before: "ledger_evolves s sv"
    and pos: "0 < amount (escrows s j)" and unset: "\<not> settled (escrows s j)"
    and eff: "release_effects j ph sv = Inr s1"
  shows "ledger_evolves s s1"
  unfolding ledger_evolves_def
proof
  fix jobId
  note r = release_effects_Inr [OF eff]
  show "record_evolves (escrows s jobId) (escrows s1 jobId)"
  proof (cases "jobId = j")
    case True
    have "amount (escrows sv j) = amount (escrows s j)"
      using before pos by (rule ledger_evolves_amount)
    with True r pos unset show ?thesis
      by (simp add: record_evolves_def)
  next
    case False
    with r have "escrows s1 jobId = escrows sv jobId" by simp
    with before show ?thesis by (simp add: ledger_evolves_def)
  qed
qed

lemma refund_effects_evolves:
  assumes pos: "0 < amount (escrows s j)" and unset: "\<not> settled (escrows s j)"
    and eff: "refund_effects j s = Inr s1"
  shows "ledger_evolves s s1"
  unfolding ledger_evolves_def
proof
  fix jobId
  note r = refund_effects_Inr [OF eff]
  show "record_evolves (escrows s jobId) (escrows s1 jobId)"
  proof (cases "jobId = j")
    case True
    with r pos unset show ?thesis
      by (simp add: record_evolves_def)
  next
    case False
    with r show ?thesis by (simp add: record_evolves_def)
  qed
qed

lemma transfer_or_revert_with_evolves:
  assumes cb: "\<And>s. ledger_evolves s (cb s)"
    and "transfer_or_revert_with cb e to v s = Inr s'"
  shows "ledger_evolves s s'"
proof -
  have "ledger_evolves s (s\<lparr>this_balance := this_balance s - v\<rparr>)"
    by (simp add: ledger_evolves_same_escrows)
  then have "ledger_evolves s (cb (s\<lparr>this_balance := this_balance s - v\<rparr>))"
    using cb ledger_evolves_trans by blast
  with transfer_or_revert_with_Inr [OF assms(2)] show ?thesis
    by (auto simp: ledger_evolves_refl)
qed

text \<open>Every call, with the nested calls of its callees, lets the records evolve.\<close>

lemma releaseEscrow_with_Inr:
  "releaseEscrow_with cb e jobId ph s = Inr s' \<Longrightarrow>
     0 < amount (escrows s jobId) \<and> \<not> settled (escrows s jobId) \<and>
     (msg_sender e = buyer (escrows s jobId) \<or> msg_sender e = owner s) \<and>
     (\<exists>s1. release_effects jobId ph s = Inr s1 \<and> pay_provider_with cb e jobId s1 = Inr s')"
  by (auto simp: releaseEscrow_with_def and_then_Inr_iff require_Inr_iff modifiers_Inr_iff)

lemma releaseWithProof_with_Inr:
  "releaseWithProof_with cbv cb e jobId pf xs s = Inr s' \<Longrightarrow>
     0 < amount (escrows s jobId) \<and> \<not> settled (escrows s jobId) \<and>
     verifierContract s \<noteq> 0 \<and>
     (\<exists>answer. verifier_answer e (verifierContract s) pf xs = CallReturned answer) \<and>
     (\<exists>s1. release_effects jobId (keccak256 e pf) (cbv s) = Inr s1
          \<and> pay_provider_with cb e jobId s1 = Inr s')"
  by (auto simp: releaseWithProof_with_def call_verifier_def and_then_Inr_iff require_Inr_iff
      modifiers_Inr_iff split: call_result.splits)

lemma refundEscrow_with_Inr:
  "refundEscrow_with cb e jobId reason s = Inr s' \<Longrightarrow>
     0 < amount (escrows s jobId) \<and> \<not> settled (escrows s jobId) \<and>
     (msg_sender e = buyer (escrows s jobId) \<or> msg_sender e = owner s) \<and>
     refund_time_gate e jobId s = Inr () \<and>
     (\<exists>s1. refund_effects jobId s = Inr s1 \<and> pay_buyer_with cb e jobId s1 = Inr s')"
  by (auto simp: refundEscrow_with_def and_then_Inr_iff require_Inr_iff modifiers_Inr_iff)

lemma dispatch_with_evolves:
  assumes cbv: "\<And>s. ledger_evolves s (cbv s)" and cb: "\<And>s. ledger_evolves s (cb s)"
    and call: "dispatch_with cbv cb e c s = Inr s'"
  shows "ledger_evolves s s'"
proof (cases c)
  case (CreateEscrow v j p)
  with call show ?thesis
    by (simp add: createEscrow_evolves)
next
  case (ReleaseEscrow j ph)
  with call have "releaseEscrow_with cb e j ph s = Inr s'" by simp
  from releaseEscrow_with_Inr [OF this] obtain s1 where
    pend: "0 < amount (escrows s j)" "\<not> settled (escrows s j)"
    and eff: "release_effects j ph s = Inr s1"
    and pay: "pay_provider_with cb e j s1 = Inr s'" by blast
  have "ledger_evolves s s1"
    using ledger_evolves_refl pend eff by (rule release_effects_evolves)
  moreover have "ledger_evolves s1 s'"
    using cb pay unfolding pay_provider_with_def by (rule transfer_or_revert_with_evolves)
  ultimately show ?thesis by (rule ledger_evolves_trans)
next
  case (ReleaseWithProof j pf xs)
  with call have "releaseWithProof_with cbv cb e j pf xs s = Inr s'" by simp
  from releaseWithProof_with_Inr [OF this] obtain s1 where
    pend: "0 < amount (escrows s j)" "\<not> settled (escrows s j)"
    and eff: "release_effects j (keccak256 e pf) (cbv s) = Inr s1"
    and pay: "pay_provider_with cb e j s1 = Inr s'" by blast
  have "ledger_evolves s s1"
    using cbv pend eff by (rule release_effects_evolves)
  moreover have "ledger_evolves s1 s'"
    using cb pay unfolding pay_provider_with_def by (rule transfer_or_revert_with_evolves)
  ultimately show ?thesis by (rule ledger_evolves_trans)
next
  case (RefundEscrow j reason)
  with call have "refundEscrow_with cb e j reason s = Inr s'" by simp
  from refundEscrow_with_Inr [OF this] obtain s1 where
    pend: "0 < amount (escrows s j)" "\<not> settled (escrows s j)"
    and eff: "refund_effects j s = Inr s1"
    and pay: "pay_buyer_with cb e j s1 = Inr s'" by blast
  have "ledger_evolves s s1"
    using pend eff by (rule refund_effects_evolves)
  moreover have "ledger_evolves s1 s'"
    using cb pay unfolding pay_buyer_with_def by (rule transfer_or_revert_with_evolves)
  ultimately show ?thesis by (rule ledger_evolves_trans)
next
  case (SetVerifier v)
  with call show ?thesis
    by (auto simp: setVerifier_def and_then_Inr_iff intro: ledger_evolves_same_escrows)
next
  case (TransferOwnership a)
  with call show ?thesis
    by (auto simp: transferOwnership_def and_then_Inr_iff intro: ledger_evolves_same_escrows)
next
  case EmergencyWithdraw
  with call have "transfer_or_revert_with cb e (owner s) (this_balance s) s = Inr s'"
    by (auto simp: emergencyWithdraw_with_def and_then_Inr_iff)
  with cb show ?thesis by (rule transfer_or_revert_with_evolves)
next
  case (Receive v)
  with call show ?thesis
    by (auto simp: receive_ether_def intro: ledger_evolves_same_escrows)
qed

lemma settle_evolves:
  "(\<And>s'. r = Inr s' \<Longrightarrow> ledger_evolves s s') \<Longrightarrow> ledger_evolves s (settle r s)"
  by (cases r) (simp_all add: settle_def ledger_evolves_refl)

lemma run_all_evolves:
  "(\<And>f e s. f \<in> set fs \<Longrightarrow> ledger_evolves s (f e s)) \<Longrightarrow> ledger_evolves s (run_all fs e s)"
proof (induction fs arbitrary: s)
  case Nil
  then show ?case by (simp add: run_all_def ledger_evolves_refl)
next
  case (Cons f fs)
  have step: "ledger_evolves s (f e s)"
    using Cons.prems by simp
  have "ledger_evolves (f e s) (run_all fs e (f e s))"
    using Cons.IH Cons.prems by simp
  with step have "ledger_evolves s (run_all fs e (f e s))"
    by (rule ledger_evolves_trans)
  then show ?case by (simp add: run_all_def)
qed

lemma exec_evolves: "ledger_evolves s (exec x e s)"
proof (induction x arbitrary: e s)
  case (Nested a c r vs b ps)
  have v: "ledger_evolves s' (run_all (map exec vs) e s')" for s'
    by (rule run_all_evolves) (auto simp: Nested.IH(1))
  have p: "ledger_evolves s' (run_all (map exec ps) e s')" for s'
    by (rule run_all_evolves) (auto simp: Nested.IH(2))
  show ?case
    unfolding exec.simps
    by (rule settle_evolves) (rule dispatch_with_evolves [OF v p])
qed

lemma run_calls_evolves: "ledger_evolves s (run_calls cs e s)"
  unfolding run_calls_def by (rule run_all_evolves) (auto simp: exec_evolves)

lemma run_calls_Nil: "run_calls [] e s = s"
  by (simp add: run_calls_def run_all_def)

lemma dispatch_evolves: "dispatch e c s = Inr s' \<Longrightarrow> ledger_evolves s s'"
  unfolding dispatch_def by (rule dispatch_with_evolves [OF run_calls_evolves run_calls_evolves])

lemma transact_evolves: "ledger_evolves s (transact e c s)"
  unfolding transact_def by (rule settle_evolves) (rule dispatch_evolves)

lemma run_evolves: "ledger_evolves s (run cs s)"
proof (induction cs arbitrary: s)
  case Nil
  then show ?case by (simp add: ledger_evolves_refl)
next
  case (Cons x cs)
  obtain e c where x: "x = (e, c)" by (cases x)
  have "ledger_evolves s (transact e c s)" by (rule transact_evolves)
  moreover have "ledger_evolves (transact e c s) (run cs (transact e c s))" by (rule Cons.IH)
  ultimately show ?case unfolding x run.simps by (rule ledger_evolves_trans)
qed

lemma constructor_ok: "ledger_ok (constructor deployer self)"
  by (simp add: ledger_ok_def record_ok_def settled_def constructor_def zero_record_def)

lemma run_ok: "ledger_ok (run cs (constructor deployer self))"
  using run_evolves constructor_ok by (rule ledger_evolves_ok)

text \<open>The functions as a transaction calls them.\<close>

lemma dispatch_simps:
  "dispatch e (CreateEscrow v jobId prov) s = createEscrow e v jobId prov s"
  "dispatch e (ReleaseEscrow jobId ph) s = releaseEscrow e jobId ph s"
  "dispatch e (ReleaseWithProof jobId pf xs) s = releaseWithProof e jobId pf xs s"
  "dispatch e (RefundEscrow jobId reason) s = refundEscrow e jobId reason s"
  "dispatch e (SetVerifier vc) s = setVerifier e vc s"
  "dispatch e (TransferOwnership a) s = transferOwnership e a s"
  "dispatch e EmergencyWithdraw s = emergencyWithdraw e s"
  "dispatch e (Receive v) s = receive_ether v s"
  by (simp_all add: dispatch_def releaseEscrow_def releaseWithProof_def refundEscrow_def
      emergencyWithdraw_def)

lemma pay_provider_evolves: "pay_provider e jobId s = Inr s' \<Longrightarrow> ledger_evolves s s'"
  unfolding pay_provider_def pay_provider_with_def
  by (rule transfer_or_revert_with_evolves [OF run_calls_evolves])

lemma pay_buyer_evolves: "pay_buyer e jobId s = Inr s' \<Longrightarrow> ledger_evolves s s'"
  unfolding pay_buyer_def pay_buyer_with_def
  by (rule transfer_or_revert_with_evolves [OF run_calls_evolves])

lemma pay_provider_no_calls:
  "payee_calls e = [] \<Longrightarrow> pay_provider e jobId s = Inr s' \<Longrightarrow>
     escrows s' = escrows s \<and> lockedBalance s' = lockedBalance s
     \<and> providerEarnings s' = providerEarnings s \<and> owner s' = owner s
     \<and> verifierContract s' = verifierContract s"
  by (auto simp: pay_provider_def pay_provider_with_def run_calls_Nil
      dest!: transfer_or_revert_with_Inr)

lemma pay_buyer_no_calls:
  "payee_calls e = [] \<Longrightarrow> pay_buyer e jobId s = Inr s' \<Longrightarrow>
     escrows s' = escrows s \<and> lockedBalance s' = lockedBalance s
     \<and> providerEarnings s' = providerEarnings s \<and> owner s' = owner s
     \<and> verifierContract s' = verifierContract s"
  by (auto simp: pay_buyer_def pay_buyer_with_def run_calls_Nil
      dest!: transfer_or_revert_with_Inr)

lemma pay_provider_Inl: "pay_provider e jobId s = Inl err \<Longrightarrow> err = TransferFailedErr"
  unfolding pay_provider_def pay_provider_with_def by (rule transfer_or_revert_with_Inl)


lemma pay_provider_ok:
  "unat (amount (escrows s jobId)) \<le> this_balance s \<Longrightarrow>
   provider (escrows s jobId) = this_address s
     \<or> accepts e (provider (escrows s jobId)) (unat (amount (escrows s jobId))) \<Longrightarrow>
   \<exists>s'. pay_provider e jobId s = Inr s'"
  unfolding pay_provider_def pay_provider_with_def by (rule transfer_or_revert_with_ok)


lemma releaseEscrow_Inr:
  "releaseEscrow e jobId ph s = Inr s' \<Longrightarrow>
     0 < amount (escrows s jobId) \<and> \<not> settled (escrows s jobId) \<and>
     (msg_sender e = buyer (escrows s jobId) \<or> msg_sender e = owner s) \<and>
     (\<exists>s1. release_effects jobId ph s = Inr s1 \<and> pay_provider e jobId s1 = Inr s')"
  unfolding releaseEscrow_def pay_provider_def by (rule releaseEscrow_with_Inr)

lemma releaseWithProof_Inr:
  "releaseWithProof e jobId pf xs s = Inr s' \<Longrightarrow>
     0 < amount (escrows s jobId) \<and> \<not> settled (escrows s jobId) \<and>
     verifierContract s \<noteq> 0 \<and>
     (\<exists>answer. verifier_answer e (verifierContract s) pf xs = CallReturned answer) \<and>
     (\<exists>s1. release_effects jobId (keccak256 e pf) (run_calls (verifier_calls e) e s) = Inr s1
          \<and> pay_provider e jobId s1 = Inr s')"
  unfolding releaseWithProof_def pay_provider_def by (rule releaseWithProof_with_Inr)

lemma refundEscrow_Inr:
  "refundEscrow e jobId reason s = Inr s' \<Longrightarrow>
     0 < amount (escrows s jobId) \<and> \<not> settled (escrows s jobId) \<and>
     (msg_sender e = buyer (escrows s jobId) \<or> msg_sender e = owner s) \<and>
     refund_time_gate e jobId s = Inr () \<and>
     (\<exists>s1. refund_effects jobId s = Inr s1 \<and> pay_buyer e jobId s1 = Inr s')"
  unfolding refundEscrow_def pay_buyer_def by (rule refundEscrow_with_Inr)

lemma releaseEscrow_unfold:
  "releaseEscrow e jobId ph s =
     and_then (escrowExists jobId s) (\<lambda>_.
     and_then (escrowNotSettled jobId s) (\<lambda>_.
     and_then (require (msg_sender e = buyer (escrows s jobId) \<or> msg_sender e = owner s)
                 NotAuthorized) (\<lambda>_.
     and_then (release_effects jobId ph s) (\<lambda>s1.
     pay_provider e jobId s1))))"
  by (simp add: releaseEscrow_def releaseEscrow_with_def pay_provider_def)

lemma refundEscrow_unfold:
  "refundEscrow e jobId reason s =
     and_then (escrowExists jobId s) (\<lambda>_.
     and_then (escrowNotSettled jobId s) (\<lambda>_.
     and_then (require (msg_sender e = buyer (escrows s jobId) \<or> msg_sender e = owner s)
                 NotAuthorized) (\<lambda>_.
     and_then (refund_time_gate e jobId s) (\<lambda>_.
     and_then (refund_effects jobId s) (\<lambda>s1.
     pay_buyer e jobId s1)))))"
  by (simp add: refundEscrow_def refundEscrow_with_def pay_buyer_def)

lemma releaseWithProof_unfold:
  "releaseWithProof e jobId pf xs s =
     and_then (escrowExists jobId s) (\<lambda>_.
     and_then (escrowNotSettled jobId s) (\<lambda>_.
     and_then (require (verifierContract s \<noteq> 0) VerifierNotSet) (\<lambda>_.
     case call_verifier (run_calls (verifier_calls e) e) e pf xs s of (verified, sv) \<Rightarrow>
     and_then (require verified ProofVerificationFailed) (\<lambda>_.
     and_then (release_effects jobId (keccak256 e pf) sv) (\<lambda>s1.
     pay_provider e jobId s1)))))"
  by (simp add: releaseWithProof_def releaseWithProof_with_def pay_provider_def)

lemma releaseEscrow_TransferFailed:
  assumes "releaseEscrow e jobId ph s = Inl TransferFailedErr"
  shows "isPending jobId s \<and>
     (\<exists>s1. release_effects jobId ph s = Inr s1 \<and> pay_provider e jobId s1 = Inl TransferFailedErr)"
  using assms
  by (auto simp: releaseEscrow_unfold and_then_Inl_iff and_then_Inr_iff require_Inl_iff
      require_Inr_iff modifiers_Inr_iff isPending_def settled_def
      dest: modifiers_Inl release_effects_Inl)

lemma refundEscrow_TransferFailed:
  assumes "refundEscrow e jobId reason s = Inl TransferFailedErr"
  shows "isPending jobId s \<and>
     (\<exists>s1. refund_effects jobId s = Inr s1 \<and> pay_buyer e jobId s1 = Inl TransferFailedErr)"
  using assms
  by (auto simp: refundEscrow_unfold and_then_Inl_iff and_then_Inr_iff require_Inl_iff
      require_Inr_iff modifiers_Inr_iff isPending_def settled_def
      dest: modifiers_Inl refund_effects_Inl refund_time_gate_Inl)

text \<open>
  Nested calls have their own sender: the sender of the outer call does not matter to
  them.
\<close>

lemma run_all_agree:
  "(\<And>f s. f \<in> set fs \<Longrightarrow> f e1 s = f e2 s) \<Longrightarrow> run_all fs e1 s = run_all fs e2 s"
proof (induction fs arbitrary: s)
  case Nil
  then show ?case by (simp add: run_all_def)
next
  case (Cons f fs)
  have "run_all (f # fs) e1 s = run_all fs e1 (f e1 s)"
    by (simp add: run_all_def)
  also have "\<dots> = run_all fs e2 (f e1 s)"
    using Cons.prems by (intro Cons.IH) simp
  also have "\<dots> = run_all fs e2 (f e2 s)"
    using Cons.prems [of f s] by simp
  also have "\<dots> = run_all (f # fs) e2 s"
    by (simp add: run_all_def)
  finally show ?case .
qed

lemma exec_caller: "exec x (e\<lparr>msg_sender := c\<rparr>) s = exec x e s"
proof (induction x arbitrary: s)
  case (Nested a d r vs b ps)
  have v: "run_all (map exec vs) (e\<lparr>msg_sender := c\<rparr>) = run_all (map exec vs) e"
    by (rule ext, rule run_all_agree) (auto simp: Nested.IH(1))
  have p: "run_all (map exec ps) (e\<lparr>msg_sender := c\<rparr>) = run_all (map exec ps) e"
    by (rule ext, rule run_all_agree) (auto simp: Nested.IH(2))
  show ?case
    by (simp add: v p)
qed

lemma run_calls_caller: "run_calls cs (e\<lparr>msg_sender := c\<rparr>) = run_calls cs e"
  unfolding run_calls_def by (rule ext, rule run_all_agree) (auto simp: exec_caller)

lemma pay_provider_caller:
  "pay_provider (e\<lparr>msg_sender := c\<rparr>) jobId s = pay_provider e jobId s"
  by (simp add: pay_provider_def pay_provider_with_def transfer_or_revert_with_def
      call_value_with_def run_calls_caller)

lemma releaseWithProof_caller:
  "releaseWithProof (e\<lparr>msg_sender := c\<rparr>) jobId pf xs s = releaseWithProof e jobId pf xs s"
  by (simp add: releaseWithProof_unfold pay_provider_caller run_calls_caller call_verifier_def)




lemma emergencyWithdraw_takes_all:
  assumes "emergencyWithdraw e s = Inr s'" "owner s \<noteq> this_address s" "payee_calls e = []"
  shows "this_balance s' = 0 \<and> escrows s' = escrows s \<and> lockedBalance s' = lockedBalance s"
  using assms
  by (auto simp: emergencyWithdraw_def emergencyWithdraw_with_def and_then_Inr_iff run_calls_Nil
      dest!: transfer_or_revert_with_Inr)

text \<open>The definitions that evaluate a call on concrete data.\<close>

lemmas contract_defs =
  createEscrow_def releaseEscrow_def releaseWithProof_def refundEscrow_def
  emergencyWithdraw_def pay_provider_def pay_buyer_def dispatch_def
  releaseEscrow_with_def releaseWithProof_with_def refundEscrow_with_def
  emergencyWithdraw_with_def pay_provider_with_def pay_buyer_with_def
  call_value_with_def transfer_or_revert_with_def call_verifier_def
  run_calls_def run_all_def settle_def
  release_effects_def refund_effects_def require_def
  escrowExists_def escrowNotSettled_def onlyOwner_def checked_add_def checked_sub_def
  refund_time_gate_def hours24_def setVerifier_def transferOwnership_def
  receive_ether_def transact_def outcome_def isPending_def
  constructor_def zero_record_def Let_def

lemmas scenario_defs =
  world_def world_rejecting_def world_reverting_def deployed_def abi_encode_bool_def
  world_verifier_refunds_def world_provider_releases_def world_buyer_creates_def
  world_buyer_refunds_def

subsection \<open>The concrete scenario, evaluated\<close>

lemma job9_pending_eq:
  "job9_pending =
     \<lparr>owner = 1, verifierContract = 0,
      escrows = (\<lambda>_. zero_record)(9 := \<lparr>buyer = 2, provider = 3, amount = 10, createdAt = 1000,
                  isReleased = False, isRefunded = False, proofHash = 0\<rparr>),
      lockedBalance = (\<lambda>_. 0)(2 := 10), providerEarnings = (\<lambda>_. 0),
      this_address = 100, this_balance = 10\<rparr>"
  by (simp add: job9_pending_def scenario_defs contract_defs)

lemma job9_with_verifier_eq:
  "job9_with_verifier = job9_pending\<lparr>verifierContract := 4\<rparr>"
  by (simp add: job9_with_verifier_def job9_pending_eq scenario_defs contract_defs)

lemma job9_released_eq:
  "job9_released =
     \<lparr>owner = 1, verifierContract = 0,
      escrows = (\<lambda>_. zero_record)(9 := \<lparr>buyer = 2, provider = 3, amount = 10, createdAt = 1000,
                  isReleased = True, isRefunded = False, proofHash = 5\<rparr>),
      lockedBalance = (\<lambda>_. 0)(2 := 0), providerEarnings = (\<lambda>_. 0)(3 := 10),
      this_address = 100, this_balance = 0\<rparr>"
  by (simp add: job9_released_def job9_pending_eq scenario_defs contract_defs)

lemma two_jobs_eq:
  "two_jobs =
     \<lparr>owner = 1, verifierContract = 4,
      escrows = (\<lambda>_. zero_record)
        (9 := \<lparr>buyer = 2, provider = 3, amount = 10, createdAt = 1000,
                isReleased = False, isRefunded = False, proofHash = 0\<rparr>,
         10 := \<lparr>buyer = 2, provider = 3, amount = 10, createdAt = 1000,
                isReleased = False, isRefunded = False, proofHash = 0\<rparr>),
      lockedBalance = (\<lambda>_. 0)(2 := 20), providerEarnings = (\<lambda>_. 0),
      this_address = 100, this_balance = 20\<rparr>"
  by (simp add: two_jobs_def job9_with_verifier_eq job9_pending_eq scenario_defs contract_defs)

lemma verifier_is_buyer_eq:
  "verifier_is_buyer =
     \<lparr>owner = 1, verifierContract = 4,
      escrows = (\<lambda>_. zero_record)
        (9 := \<lparr>buyer = 4, provider = 3, amount = 10, createdAt = 1000,
                isReleased = False, isRefunded = False, proofHash = 0\<rparr>,
         10 := \<lparr>buyer = 4, provider = 3, amount = 10, createdAt = 1000,
                isReleased = False, isRefunded = False, proofHash = 0\<rparr>),
      lockedBalance = (\<lambda>_. 0)(4 := 20), providerEarnings = (\<lambda>_. 0),
      this_address = 100, this_balance = 20\<rparr>"
  by (simp add: verifier_is_buyer_def scenario_defs contract_defs)

subsection \<open>C1: releaseWithProof and the answer of the verifier\<close>

text \<open>
  The two parts of claim C1 that the code satisfies: on a pending job, the call reverts
  with \<^verbatim>\<open>"Verifier not set"\<close> when no verifier is configured, and with
  \<^verbatim>\<open>"Proof verification failed"\<close> when the call to the verifier reverts.
\<close>

lemma releaseWithProof_no_verifier:
  assumes "isPending jobId s" "verifierContract s = 0"
  shows "releaseWithProof e jobId pf xs s = Inl VerifierNotSet"
  using assms
  by (simp add: releaseWithProof_unfold isPending_def escrowExists_def escrowNotSettled_def
      require_def)

lemma releaseWithProof_call_reverted:
  assumes "isPending jobId s" "verifierContract s \<noteq> 0"
    and "verifier_answer e (verifierContract s) pf xs = CallReverted"
  shows "releaseWithProof e jobId pf xs s = Inl ProofVerificationFailed"
  using assms
  by (simp add: releaseWithProof_unfold isPending_def escrowExists_def escrowNotSettled_def
      require_def call_verifier_def)

text \<open>
  Scenario D of the specification on the code, as far as it holds: with no verifier
  configured the call on the pending job 9 fails as \<open>VerifierNotConfigured\<close>; with the
  verifier configured and the call to it reverting, it fails as \<open>VerificationFailed\<close> and
  the job remains pending.
\<close>

lemma scenario_D_reverting_verifier:
  "outcome (world_reverting 5 3000) (ReleaseWithProof 9 [1, 2] []) job9_pending = Some VerifierNotSet
   \<and> outcome (world_reverting 5 3000) (ReleaseWithProof 9 [1, 2] []) job9_with_verifier
       = Some ProofVerificationFailed
   \<and> isPending 9 (transact (world_reverting 5 3000) (ReleaseWithProof 9 [1, 2] []) job9_with_verifier)"
  by (simp add: job9_with_verifier_eq job9_pending_eq scenario_defs contract_defs)

text \<open>
  Whatever data the verifier returns, a call that returns counts as a successful
  verification: the release goes through when the aggregates and the payment allow it
  (stated for a verifier that makes no call back into the contract).
\<close>

lemma releaseWithProof_any_answer:
  assumes pend: "isPending jobId s" and conf: "verifierContract s \<noteq> 0"
    and ans: "verifier_answer e (verifierContract s) pf xs = CallReturned answer"
    and quiet: "verifier_calls e = []"
    and lock: "unat (amount (escrows s jobId)) \<le> unat (lockedBalance s (buyer (escrows s jobId)))"
    and earn: "unat (providerEarnings s (provider (escrows s jobId)))
                 + unat (amount (escrows s jobId)) < 2 ^ 256"
    and bal: "unat (amount (escrows s jobId)) \<le> this_balance s"
    and acc: "provider (escrows s jobId) = this_address s
                \<or> accepts e (provider (escrows s jobId)) (unat (amount (escrows s jobId)))"
  shows "\<exists>s'. releaseWithProof e jobId pf xs s = Inr s' \<and> isReleased (escrows s' jobId)"
proof -
  note m = pending_modifiers [OF pend]
  have pos: "0 < amount (escrows s jobId)"
    using pend by (simp add: isPending_def)
  have ver: "call_verifier (run_calls (verifier_calls e) e) e pf xs s = (True, s)"
    using ans quiet by (simp add: call_verifier_def run_calls_Nil)
  obtain s1 where eff: "release_effects jobId (keccak256 e pf) s = Inr s1"
    using lock earn by (simp add: release_effects_def Let_def checked_sub_def checked_add_def)
  note r = release_effects_Inr [OF eff]
  have "unat (amount (escrows s1 jobId)) \<le> this_balance s1"
    and "provider (escrows s1 jobId) = this_address s1
          \<or> accepts e (provider (escrows s1 jobId)) (unat (amount (escrows s1 jobId)))"
    using r bal acc by simp_all
  then have "\<exists>s'. pay_provider e jobId s1 = Inr s'"
    by (rule pay_provider_ok)
  then obtain s' where pay: "pay_provider e jobId s1 = Inr s'"
    by blast
  have "releaseWithProof e jobId pf xs s = Inr s'"
    using m conf ver eff pay by (simp add: releaseWithProof_unfold require_def)
  moreover have "escrows s' jobId = escrows s1 jobId"
    using pay_provider_evolves [OF pay] r pos
    by (intro ledger_evolves_settled) (simp_all add: settled_def)
  then have "isReleased (escrows s' jobId)"
    using r by simp
  ultimately show ?thesis by blast
qed

text \<open>
  Claim C1 says that \<open>releaseWithProof\<close> fails with \<open>VerificationFailed\<close>, the job staying
  pending, when the configured verifier reports false. The source takes the success flag
  of the low-level call for the verdict and never decodes the returned \<^verbatim>\<open>bool\<close>. In the
  scenario the verifier at address 4 returns \<^verbatim>\<open>false\<close> and nobody calls back; a
  stranger's call of \<open>releaseWithProof\<close> on the pending job 9 then succeeds, marks the job
  released and pays the provider.
\<close>

theorem releaseWithProof_accepts_false_answer:
  "isPending 9 job9_with_verifier
   \<and> verifierContract job9_with_verifier = 4
   \<and> verifier_answer (world 5 3000) 4 [1, 2] [] = CallReturned (abi_encode_bool False)
   \<and> outcome (world 5 3000) (ReleaseWithProof 9 [1, 2] []) job9_with_verifier = None
   \<and> isReleased (escrows (transact (world 5 3000) (ReleaseWithProof 9 [1, 2] []) job9_with_verifier) 9)
   \<and> \<not> isPending 9 (transact (world 5 3000) (ReleaseWithProof 9 [1, 2] []) job9_with_verifier)
   \<and> providerEarnings (transact (world 5 3000) (ReleaseWithProof 9 [1, 2] []) job9_with_verifier) 3 = 10
   \<and> this_balance (transact (world 5 3000) (ReleaseWithProof 9 [1, 2] []) job9_with_verifier) = 0"
  by (simp add: job9_with_verifier_eq job9_pending_eq scenario_defs contract_defs)

subsection \<open>C2: both flags on one record\<close>

text \<open>
  What every reachable state satisfies, whatever the callees do: a record that has a flag
  set has a positive amount.
\<close>

lemma reachable_settled_positive:
  "isReleased (escrows (run cs (constructor deployer self)) jobId)
     \<or> isRefunded (escrows (run cs (constructor deployer self)) jobId)
   \<Longrightarrow> 0 < amount (escrows (run cs (constructor deployer self)) jobId)"
  using run_ok [of cs deployer self]
  by (auto simp: ledger_ok_def record_ok_def settled_def)

text \<open>
  Claim C2 says that on every reachable sequence of operations at most one of the flags
  \<open>isReleased\<close> and \<open>isRefunded\<close> is ever true, and that a record with a flag set does
  not change again. \<open>releaseEscrow\<close> and \<open>refundEscrow\<close> mark the record before their
  external call; \<open>releaseWithProof\<close> checks the flags on entry, then calls the verifier,
  and marks the record only afterwards. In the scenario the contract at address 4 is
  the buyer of jobs 9 and 10 and the configured verifier. After the timeout a stranger
  calls \<open>releaseWithProof\<close> on job 9; the verifier, while it is called, refunds job 9 to
  itself; the outer call then marks the refunded record released and pays the provider
  with the 10 wei that back job 10. Job 9 ends with both flags set, job 10 is pending
  and the contract holds nothing.
\<close>

theorem verifier_callback_sets_both_flags:
  "isPending 9 verifier_is_buyer
   \<and> outcome (world_verifier_refunds 5 90000) (ReleaseWithProof 9 [1, 2] []) verifier_is_buyer = None
   \<and> isRefunded (escrows (transact (world_verifier_refunds 5 90000) (ReleaseWithProof 9 [1, 2] [])
                             verifier_is_buyer) 9)
   \<and> isReleased (escrows (transact (world_verifier_refunds 5 90000) (ReleaseWithProof 9 [1, 2] [])
                             verifier_is_buyer) 9)
   \<and> isPending 10 (transact (world_verifier_refunds 5 90000) (ReleaseWithProof 9 [1, 2] [])
                      verifier_is_buyer)
   \<and> this_balance (transact (world_verifier_refunds 5 90000) (ReleaseWithProof 9 [1, 2] [])
                      verifier_is_buyer) = 0"
  by (simp add: verifier_is_buyer_eq scenario_defs contract_defs)

subsection \<open>C3: the checks of createEscrow\<close>

text \<open>
  Claim C3 gives each failure of \<open>createEscrow\<close> its error whenever its condition holds.
  The source checks the conditions one after the other and reports the first that
  fails, and its checked addition reverts when the buyer's locked balance would leave
  \<^verbatim>\<open>uint256\<close>. Three inputs at which the claim as stated fails: amount zero with provider
  zero is reported as \<^verbatim>\<open>"Must send ETH"\<close>, not as an invalid provider; provider zero
  with an existing job is reported as \<^verbatim>\<open>"Invalid provider"\<close>, not as a duplicate; and
  with no condition violated the call reverts when the locked balance overflows (the
  buyer has locked the largest \<^verbatim>\<open>uint256\<close> in job 9 and creates job 8 with 1 wei).
\<close>

theorem createEscrow_wrong_error_example:
  "createEscrow (world 2 1000) 0 9 0 deployed = Inl MustSendETH
   \<and> spec_error_of MustSendETH \<noteq> InvalidProvider
   \<and> createEscrow (world 2 2000) 7 9 0 job9_pending = Inl InvalidProviderZero
   \<and> spec_error_of InvalidProviderZero \<noteq> DuplicateJob
   \<and> createEscrow (world 2 2000) 1 8 3
        (run [(world 2 1000,
               CreateEscrow 115792089237316195423570985008687907853269984665640564039457584007913129639935 9 3)]
           deployed) = Inl ArithmeticPanic"
  by (simp add: job9_pending_eq scenario_defs contract_defs)

text \<open>
  Claim C3 as amended. \<open>createEscrow\<close> fails with \<open>InvalidAmount\<close> whenever the amount is
  zero; with \<open>InvalidProvider\<close> whenever the amount is nonzero and the provider is the zero
  address or the caller; with \<open>DuplicateJob\<close> whenever amount and provider are valid and
  the job has a record with nonzero amount, whoever calls; and when none of these
  conditions holds and the caller's locked balance plus the amount fits in \<^verbatim>\<open>uint256\<close>, it
  succeeds and stores a new pending record with the caller as buyer; when the sum does
  not fit, the checked addition reverts.
\<close>

theorem createEscrow_checks_in_order:
  "(msg_value = 0 \<longrightarrow>
      (\<exists>err. createEscrow e msg_value jobId prov s = Inl err \<and> spec_error_of err = InvalidAmount))
   \<and> (msg_value \<noteq> 0 \<and> (prov = 0 \<or> prov = msg_sender e) \<longrightarrow>
      (\<exists>err. createEscrow e msg_value jobId prov s = Inl err \<and> spec_error_of err = InvalidProvider))
   \<and> (msg_value \<noteq> 0 \<and> prov \<noteq> 0 \<and> prov \<noteq> msg_sender e \<and> amount (escrows s jobId) \<noteq> 0 \<longrightarrow>
      (\<exists>err. createEscrow e msg_value jobId prov s = Inl err \<and> spec_error_of err = DuplicateJob))
   \<and> (msg_value \<noteq> 0 \<and> prov \<noteq> 0 \<and> prov \<noteq> msg_sender e \<and> amount (escrows s jobId) = 0
        \<and> unat (lockedBalance s (msg_sender e)) + unat msg_value < 2 ^ 256 \<longrightarrow>
      (\<exists>s'. createEscrow e msg_value jobId prov s = Inr s'
         \<and> escrows s' jobId =
             \<lparr>buyer = msg_sender e, provider = prov, amount = msg_value,
              createdAt = block_timestamp e, isReleased = False, isRefunded = False,
              proofHash = 0\<rparr>
         \<and> isPending jobId s'
         \<and> unat (lockedBalance s' (msg_sender e))
             = unat (lockedBalance s (msg_sender e)) + unat msg_value))
   \<and> (msg_value \<noteq> 0 \<and> prov \<noteq> 0 \<and> prov \<noteq> msg_sender e \<and> amount (escrows s jobId) = 0
        \<and> \<not> unat (lockedBalance s (msg_sender e)) + unat msg_value < 2 ^ 256 \<longrightarrow>
      createEscrow e msg_value jobId prov s = Inl ArithmeticPanic)"
proof -
  have pos: "0 < msg_value \<longleftrightarrow> msg_value \<noteq> 0"
    by (simp add: word_greater_zero_iff)
  have a: "msg_value = 0 \<Longrightarrow> createEscrow e msg_value jobId prov s = Inl MustSendETH"
    by (simp add: createEscrow_def require_def)
  have b: "createEscrow e msg_value jobId prov s = Inl InvalidProviderZero"
    if "msg_value \<noteq> 0" "prov = 0"
    using that by (simp add: createEscrow_def require_def pos)
  have c: "createEscrow e msg_value jobId prov s = Inl CannotEscrowToSelf"
    if "msg_value \<noteq> 0" "prov \<noteq> 0" "prov = msg_sender e"
    using that by (simp add: createEscrow_def require_def pos)
  have d: "createEscrow e msg_value jobId prov s = Inl EscrowAlreadyExists"
    if "msg_value \<noteq> 0" "prov \<noteq> 0" "prov \<noteq> msg_sender e" "amount (escrows s jobId) \<noteq> 0"
    using that by (simp add: createEscrow_def require_def pos)
  have ok: "\<exists>s'. createEscrow e msg_value jobId prov s = Inr s'
         \<and> escrows s' jobId =
             \<lparr>buyer = msg_sender e, provider = prov, amount = msg_value,
              createdAt = block_timestamp e, isReleased = False, isRefunded = False,
              proofHash = 0\<rparr>
         \<and> isPending jobId s'
         \<and> unat (lockedBalance s' (msg_sender e))
             = unat (lockedBalance s (msg_sender e)) + unat msg_value"
    if "msg_value \<noteq> 0" "prov \<noteq> 0" "prov \<noteq> msg_sender e" "amount (escrows s jobId) = 0"
      "unat (lockedBalance s (msg_sender e)) + unat msg_value < 2 ^ 256"
    using that
    by (simp add: createEscrow_def require_def pos checked_add_def Let_def isPending_def
        unat_checked_add)
  have prov_err: "\<exists>err. createEscrow e msg_value jobId prov s = Inl err
                    \<and> spec_error_of err = InvalidProvider"
    if "msg_value \<noteq> 0" "prov = 0 \<or> prov = msg_sender e"
  proof (cases "prov = 0")
    case True
    with b that show ?thesis by simp
  next
    case False
    with c that show ?thesis by simp
  qed
  have ovf: "createEscrow e msg_value jobId prov s = Inl ArithmeticPanic"
    if "msg_value \<noteq> 0" "prov \<noteq> 0" "prov \<noteq> msg_sender e" "amount (escrows s jobId) = 0"
      "\<not> unat (lockedBalance s (msg_sender e)) + unat msg_value < 2 ^ 256"
    using that
    by (simp add: createEscrow_def require_def pos checked_add_def Let_def)
  have amount_err: "\<exists>err. createEscrow e msg_value jobId prov s = Inl err
                      \<and> spec_error_of err = InvalidAmount"
    if "msg_value = 0"
    using a [OF that] by simp
  have dup_err: "\<exists>err. createEscrow e msg_value jobId prov s = Inl err
                   \<and> spec_error_of err = DuplicateJob"
    if "msg_value \<noteq> 0" "prov \<noteq> 0" "prov \<noteq> msg_sender e" "amount (escrows s jobId) \<noteq> 0"
    using d [OF that] by simp
  from amount_err prov_err dup_err ok ovf show ?thesis
    by blast
qed

theorem createEscrow_checks_in_order_witness:
  "(\<exists>err. createEscrow (world 2 1000) 0 9 3 deployed = Inl err \<and> spec_error_of err = InvalidAmount)
   \<and> (\<exists>err. createEscrow (world 2 1000) 10 9 2 deployed = Inl err \<and> spec_error_of err = InvalidProvider)
   \<and> (\<exists>err. createEscrow (world 5 2000) 4 9 3 job9_pending = Inl err \<and> spec_error_of err = DuplicateJob)
   \<and> (\<exists>s'. createEscrow (world 2 1000) 10 9 3 deployed = Inr s' \<and> buyer (escrows s' 9) = 2
         \<and> isPending 9 s')
   \<and> createEscrow (world 2 2000) 1 8 3
        (run [(world 2 1000,
               CreateEscrow 115792089237316195423570985008687907853269984665640564039457584007913129639935 9 3)]
           deployed) = Inl ArithmeticPanic"
proof -
  have h1: "\<exists>err. createEscrow (world 2 1000) 0 9 3 deployed = Inl err \<and> spec_error_of err = InvalidAmount"
    using createEscrow_checks_in_order
      [where msg_value = 0 and e = "world 2 1000" and jobId = 9 and prov = 3 and s = deployed]
    by simp
  have h2: "\<exists>err. createEscrow (world 2 1000) 10 9 2 deployed = Inl err \<and> spec_error_of err = InvalidProvider"
    using createEscrow_checks_in_order
      [where msg_value = 10 and e = "world 2 1000" and jobId = 9 and prov = 2 and s = deployed,
        THEN conjunct2, THEN conjunct1]
    by (simp add: world_def)
  have h3: "\<exists>err. createEscrow (world 5 2000) 4 9 3 job9_pending = Inl err \<and> spec_error_of err = DuplicateJob"
    using createEscrow_checks_in_order
      [where msg_value = 4 and e = "world 5 2000" and jobId = 9 and prov = 3 and s = job9_pending,
        THEN conjunct2, THEN conjunct2, THEN conjunct1]
    by (simp add: world_def job9_pending_eq)
  have h4: "\<exists>s'. createEscrow (world 2 1000) 10 9 3 deployed = Inr s' \<and> buyer (escrows s' 9) = 2
         \<and> isPending 9 s'"
    using createEscrow_checks_in_order
      [where msg_value = 10 and e = "world 2 1000" and jobId = 9 and prov = 3 and s = deployed,
        THEN conjunct2, THEN conjunct2, THEN conjunct2, THEN conjunct1]
    by (auto simp: world_def deployed_def constructor_def zero_record_def)
  have full: "run [(world 2 1000,
               CreateEscrow 115792089237316195423570985008687907853269984665640564039457584007913129639935 9 3)]
           deployed =
     \<lparr>owner = 1, verifierContract = 0,
      escrows = (\<lambda>_. zero_record)(9 := \<lparr>buyer = 2, provider = 3,
                  amount = 115792089237316195423570985008687907853269984665640564039457584007913129639935,
                  createdAt = 1000, isReleased = False, isRefunded = False, proofHash = 0\<rparr>),
      lockedBalance = (\<lambda>_. 0)
        (2 := 115792089237316195423570985008687907853269984665640564039457584007913129639935),
      providerEarnings = (\<lambda>_. 0), this_address = 100,
      this_balance = 115792089237316195423570985008687907853269984665640564039457584007913129639935\<rparr>"
    by (simp add: scenario_defs contract_defs)
  have h5: "createEscrow (world 2 2000) 1 8 3
        (run [(world 2 1000,
               CreateEscrow 115792089237316195423570985008687907853269984665640564039457584007913129639935 9 3)]
           deployed) = Inl ArithmeticPanic"
    unfolding full
    using createEscrow_checks_in_order
      [where msg_value = 1 and e = "world 2 2000" and jobId = 8 and prov = 3
         and s = "\<lparr>owner = 1, verifierContract = 0,
      escrows = (\<lambda>_. zero_record)(9 := \<lparr>buyer = 2, provider = 3,
                  amount = 115792089237316195423570985008687907853269984665640564039457584007913129639935,
                  createdAt = 1000, isReleased = False, isRefunded = False, proofHash = 0\<rparr>),
      lockedBalance = (\<lambda>_. 0)
        (2 := 115792089237316195423570985008687907853269984665640564039457584007913129639935),
      providerEarnings = (\<lambda>_. 0), this_address = 100,
      this_balance = 115792089237316195423570985008687907853269984665640564039457584007913129639935\<rparr>",
        THEN conjunct2, THEN conjunct2, THEN conjunct2, THEN conjunct2]
    by (simp add: world_def zero_record_def)
  from h1 h2 h3 h4 h5 show ?thesis by simp
qed

subsection \<open>C4: what a successful releaseEscrow changes\<close>

text \<open>
  Claim C4 says that after a successful \<open>releaseEscrow\<close> the provider's earnings have
  grown, and the buyer's locked balance has shrunk, by exactly the record's amount. The
  payout hands control to the provider, whose code may call back into the contract
  before the call returns. In the scenario the buyer has two pending jobs, 9 and 10, of
  10 wei each for the same provider, who, while it is paid for job 9, calls
  \<open>releaseWithProof\<close> on job 10: after the one successful \<open>releaseEscrow\<close> on job 9 the
  provider's earnings have grown by 20 and the buyer's locked balance has shrunk by 20.
\<close>

theorem provider_callback_example:
  "isPending 9 two_jobs
   \<and> amount (escrows two_jobs 9) = 10
   \<and> providerEarnings two_jobs 3 = 0
   \<and> lockedBalance two_jobs 2 = 20
   \<and> outcome (world_provider_releases 2 2000) (ReleaseEscrow 9 5) two_jobs = None
   \<and> providerEarnings (transact (world_provider_releases 2 2000) (ReleaseEscrow 9 5) two_jobs) 3 = 20
   \<and> lockedBalance (transact (world_provider_releases 2 2000) (ReleaseEscrow 9 5) two_jobs) 2 = 0"
  by (simp add: two_jobs_eq scenario_defs contract_defs)

text \<open>
  Claim C4 as amended. When \<open>releaseEscrow\<close> succeeds on a job, the job was pending;
  when the call returns, \<open>isReleased\<close> is set and the given proof hash is stored in the
  record, and nothing else of the record has changed; before the provider is paid
  (the state \<open>s1\<close>), the provider's earnings have grown by exactly the record's amount
  and the buyer's locked balance has shrunk by exactly the record's amount; and when the
  provider makes no call back into the contract while it is paid, the same holds of
  the two aggregates when the call returns.
\<close>

theorem releaseEscrow_moves_amount:
  assumes "releaseEscrow e jobId ph s = Inr s'"
  shows "isPending jobId s
    \<and> isReleased (escrows s' jobId)
    \<and> proofHash (escrows s' jobId) = ph
    \<and> escrows s' jobId = (escrows s jobId)\<lparr>isReleased := True, proofHash := ph\<rparr>
    \<and> (\<exists>s1. release_effects jobId ph s = Inr s1
          \<and> unat (providerEarnings s1 (provider (escrows s jobId)))
              = unat (providerEarnings s (provider (escrows s jobId)))
                + unat (amount (escrows s jobId))
          \<and> unat (lockedBalance s1 (buyer (escrows s jobId))) + unat (amount (escrows s jobId))
              = unat (lockedBalance s (buyer (escrows s jobId)))
          \<and> pay_provider e jobId s1 = Inr s')
    \<and> (payee_calls e = [] \<longrightarrow>
          unat (providerEarnings s' (provider (escrows s jobId)))
            = unat (providerEarnings s (provider (escrows s jobId)))
              + unat (amount (escrows s jobId))
          \<and> unat (lockedBalance s' (buyer (escrows s jobId))) + unat (amount (escrows s jobId))
              = unat (lockedBalance s (buyer (escrows s jobId))))"
proof -
  from releaseEscrow_Inr [OF assms] obtain s1 where
    pend: "0 < amount (escrows s jobId)" "\<not> settled (escrows s jobId)"
    and eff: "release_effects jobId ph s = Inr s1"
    and pay: "pay_provider e jobId s1 = Inr s'"
    by blast
  note r = release_effects_Inr [OF eff]
  have pending: "isPending jobId s"
    using pend by (simp add: isPending_def settled_def)
  have rec1: "escrows s1 jobId = (escrows s jobId)\<lparr>isReleased := True, proofHash := ph\<rparr>"
    using r by simp
  have "escrows s' jobId = escrows s1 jobId"
    using pay_provider_evolves [OF pay] rec1 pend(1)
    by (intro ledger_evolves_settled) (simp_all add: settled_def)
  with rec1 have rec: "escrows s' jobId = (escrows s jobId)\<lparr>isReleased := True, proofHash := ph\<rparr>"
    by simp
  have earn1: "unat (providerEarnings s1 (provider (escrows s jobId)))
        = unat (providerEarnings s (provider (escrows s jobId))) + unat (amount (escrows s jobId))"
    using r by (simp add: unat_checked_add)
  have lock1: "unat (lockedBalance s1 (buyer (escrows s jobId))) + unat (amount (escrows s jobId))
        = unat (lockedBalance s (buyer (escrows s jobId)))"
    using r by (simp add: unat_checked_sub)
  have before: "\<exists>s1. release_effects jobId ph s = Inr s1
          \<and> unat (providerEarnings s1 (provider (escrows s jobId)))
              = unat (providerEarnings s (provider (escrows s jobId)))
                + unat (amount (escrows s jobId))
          \<and> unat (lockedBalance s1 (buyer (escrows s jobId))) + unat (amount (escrows s jobId))
              = unat (lockedBalance s (buyer (escrows s jobId)))
          \<and> pay_provider e jobId s1 = Inr s'"
    using eff earn1 lock1 pay by blast
  have quiet: "unat (providerEarnings s' (provider (escrows s jobId)))
            = unat (providerEarnings s (provider (escrows s jobId)))
              + unat (amount (escrows s jobId))
          \<and> unat (lockedBalance s' (buyer (escrows s jobId))) + unat (amount (escrows s jobId))
              = unat (lockedBalance s (buyer (escrows s jobId)))"
    if "payee_calls e = []"
    using pay_provider_no_calls [OF that pay] earn1 lock1 by simp
  from pending rec before quiet show ?thesis
    by simp
qed

theorem releaseEscrow_moves_amount_witness:
  "releaseEscrow (world 2 1002) 9 5 job9_pending = Inr job9_released
   \<and> payee_calls (world 2 1002) = []
   \<and> isPending 9 job9_pending
   \<and> unat (providerEarnings job9_released 3) = unat (providerEarnings job9_pending 3) + 10
   \<and> unat (lockedBalance job9_released 2) + 10 = unat (lockedBalance job9_pending 2)
   \<and> isReleased (escrows job9_released 9)
   \<and> proofHash (escrows job9_released 9) = 5"
proof -
  have call: "releaseEscrow (world 2 1002) 9 5 job9_pending = Inr job9_released"
    by (simp add: job9_released_eq job9_pending_eq scenario_defs contract_defs)
  have quiet: "payee_calls (world 2 1002) = []"
    by (simp add: world_def)
  show ?thesis
    using call quiet releaseEscrow_moves_amount [OF call]
    by (simp add: job9_pending_eq)
qed

subsection \<open>C5: what a successful refundEscrow changes, and what it leaves alone\<close>

text \<open>
  Claim C5 says that a successful \<open>refundEscrow\<close> lowers the buyer's locked balance by
  exactly the record's amount and changes no other balance. The payout hands control to
  the buyer, whose code may call back into the contract before the call returns. In the
  scenario the buyer, while it is paid the 10 wei of job 9, puts them into a new job 8:
  after the successful refund of job 9 the buyer's locked balance is 10 as before, and
  job 8 is pending.
\<close>

theorem buyer_callback_example:
  "isPending 9 job9_pending
   \<and> amount (escrows job9_pending 9) = 10
   \<and> lockedBalance job9_pending 2 = 10
   \<and> \<not> isPending 8 job9_pending
   \<and> outcome (world_buyer_creates 1 2000) (RefundEscrow 9 ''no proof'') job9_pending = None
   \<and> isRefunded (escrows (transact (world_buyer_creates 1 2000) (RefundEscrow 9 ''no proof'')
                             job9_pending) 9)
   \<and> lockedBalance (transact (world_buyer_creates 1 2000) (RefundEscrow 9 ''no proof'')
                       job9_pending) 2 = 10
   \<and> isPending 8 (transact (world_buyer_creates 1 2000) (RefundEscrow 9 ''no proof'')
                     job9_pending)"
  by (simp add: job9_pending_eq scenario_defs contract_defs)

text \<open>
  Claim C5 as amended. When \<open>refundEscrow\<close> succeeds on a job, the job was pending; when
  the call returns, \<open>isRefunded\<close> is set in the record and nothing else of the record has
  changed; before the buyer is paid (the state \<open>s1\<close>), the buyer's locked balance has
  shrunk by exactly the record's amount, and the locked balance of every other account,
  the earnings of every account, every other record, the owner and the verifier are as
  before; and when the buyer makes no call back into the contract while it is paid, the
  same holds when the call returns.
\<close>

theorem refundEscrow_frame:
  assumes "refundEscrow e jobId reason s = Inr s'"
  shows "isPending jobId s
    \<and> isRefunded (escrows s' jobId)
    \<and> escrows s' jobId = (escrows s jobId)\<lparr>isRefunded := True\<rparr>
    \<and> (\<exists>s1. refund_effects jobId s = Inr s1
          \<and> unat (lockedBalance s1 (buyer (escrows s jobId))) + unat (amount (escrows s jobId))
              = unat (lockedBalance s (buyer (escrows s jobId)))
          \<and> (\<forall>a. a \<noteq> buyer (escrows s jobId) \<longrightarrow> lockedBalance s1 a = lockedBalance s a)
          \<and> providerEarnings s1 = providerEarnings s
          \<and> (\<forall>j. j \<noteq> jobId \<longrightarrow> escrows s1 j = escrows s j)
          \<and> owner s1 = owner s \<and> verifierContract s1 = verifierContract s
          \<and> pay_buyer e jobId s1 = Inr s')
    \<and> (payee_calls e = [] \<longrightarrow>
          unat (lockedBalance s' (buyer (escrows s jobId))) + unat (amount (escrows s jobId))
            = unat (lockedBalance s (buyer (escrows s jobId)))
          \<and> (\<forall>a. a \<noteq> buyer (escrows s jobId) \<longrightarrow> lockedBalance s' a = lockedBalance s a)
          \<and> providerEarnings s' = providerEarnings s
          \<and> (\<forall>j. j \<noteq> jobId \<longrightarrow> escrows s' j = escrows s j)
          \<and> owner s' = owner s \<and> verifierContract s' = verifierContract s)"
proof -
  from refundEscrow_Inr [OF assms] obtain s1 where
    pend: "0 < amount (escrows s jobId)" "\<not> settled (escrows s jobId)"
    and eff: "refund_effects jobId s = Inr s1"
    and pay: "pay_buyer e jobId s1 = Inr s'"
    by blast
  note r = refund_effects_Inr [OF eff]
  have pending: "isPending jobId s"
    using pend by (simp add: isPending_def settled_def)
  have rec1: "escrows s1 jobId = (escrows s jobId)\<lparr>isRefunded := True\<rparr>"
    using r by simp
  have "escrows s' jobId = escrows s1 jobId"
    using pay_buyer_evolves [OF pay] rec1 pend(1)
    by (intro ledger_evolves_settled) (simp_all add: settled_def)
  with rec1 have rec: "escrows s' jobId = (escrows s jobId)\<lparr>isRefunded := True\<rparr>"
    by simp
  have lock1: "unat (lockedBalance s1 (buyer (escrows s jobId))) + unat (amount (escrows s jobId))
        = unat (lockedBalance s (buyer (escrows s jobId)))"
    using r by (simp add: unat_checked_sub)
  have others1: "\<forall>a. a \<noteq> buyer (escrows s jobId) \<longrightarrow> lockedBalance s1 a = lockedBalance s a"
    using r by simp
  have earn1: "providerEarnings s1 = providerEarnings s"
    using r by simp
  have jobs1: "\<forall>j. j \<noteq> jobId \<longrightarrow> escrows s1 j = escrows s j"
    using r by simp
  have adm1: "owner s1 = owner s \<and> verifierContract s1 = verifierContract s"
    using r by simp
  have before: "\<exists>s1. refund_effects jobId s = Inr s1
          \<and> unat (lockedBalance s1 (buyer (escrows s jobId))) + unat (amount (escrows s jobId))
              = unat (lockedBalance s (buyer (escrows s jobId)))
          \<and> (\<forall>a. a \<noteq> buyer (escrows s jobId) \<longrightarrow> lockedBalance s1 a = lockedBalance s a)
          \<and> providerEarnings s1 = providerEarnings s
          \<and> (\<forall>j. j \<noteq> jobId \<longrightarrow> escrows s1 j = escrows s j)
          \<and> owner s1 = owner s \<and> verifierContract s1 = verifierContract s
          \<and> pay_buyer e jobId s1 = Inr s'"
    using eff lock1 others1 earn1 jobs1 adm1 pay by blast
  have quiet: "unat (lockedBalance s' (buyer (escrows s jobId))) + unat (amount (escrows s jobId))
            = unat (lockedBalance s (buyer (escrows s jobId)))
          \<and> (\<forall>a. a \<noteq> buyer (escrows s jobId) \<longrightarrow> lockedBalance s' a = lockedBalance s a)
          \<and> providerEarnings s' = providerEarnings s
          \<and> (\<forall>j. j \<noteq> jobId \<longrightarrow> escrows s' j = escrows s j)
          \<and> owner s' = owner s \<and> verifierContract s' = verifierContract s"
    if "payee_calls e = []"
    using pay_buyer_no_calls [OF that pay] lock1 others1 earn1 jobs1 adm1 by simp
  from pending rec before quiet show ?thesis
    by simp
qed

theorem refundEscrow_frame_witness:
  "payee_calls (world 1 2000) = []
   \<and> (\<exists>s'. refundEscrow (world 1 2000) 9 ''no proof'' job9_pending = Inr s'
      \<and> isRefunded (escrows s' 9)
      \<and> unat (lockedBalance s' 2) + 10 = unat (lockedBalance job9_pending 2)
      \<and> lockedBalance s' 3 = lockedBalance job9_pending 3
      \<and> providerEarnings s' = providerEarnings job9_pending)"
proof -
  obtain s' where call: "refundEscrow (world 1 2000) 9 ''no proof'' job9_pending = Inr s'"
    by (simp add: job9_pending_eq scenario_defs contract_defs)
  have quiet: "payee_calls (world 1 2000) = []"
    by (simp add: world_def)
  show ?thesis
    using call quiet refundEscrow_frame [OF call]
    by (simp add: job9_pending_eq)
qed

subsection \<open>C6: who may refund, and when\<close>


text \<open>
  The administrator passes the time gate at every time, but what the buyer does while it
  is paid runs in the same block and may depend on the time. In the scenario the buyer,
  while it is paid for job 9, calls \<open>refundEscrow\<close> on its other job 10: at time 2000
  that nested call is too early and job 10 stays pending, at time 90000 it goes through.
\<close>

lemma admin_refund_callback_sees_time:
  "msg_sender (world_buyer_refunds 1 2000) = owner two_jobs
   \<and> isPending 9 two_jobs
   \<and> isPending 10 (transact (world_buyer_refunds 1 2000) (RefundEscrow 9 ''no proof'') two_jobs)
   \<and> isRefunded (escrows (transact ((world_buyer_refunds 1 2000)\<lparr>block_timestamp := 90000\<rparr>)
                             (RefundEscrow 9 ''no proof'') two_jobs) 10)"
  by (simp add: two_jobs_eq scenario_defs contract_defs)



subsection \<open>C7: settlement of a settled job fails and changes nothing\<close>

text \<open>
  Claim C7. In every reachable state, for a job whose \<open>isReleased\<close> or \<open>isRefunded\<close> flag is
  set, each of \<open>releaseEscrow\<close>, \<open>releaseWithProof\<close> and \<open>refundEscrow\<close> on that job reverts
  with an error that the specification calls \<open>AlreadySettled\<close>, and the storage after the
  call (records, locked balances, earnings) is the storage before it. The reachable
  states are those after any sequence of transactions, with whatever calls back the
  callees make in them.
\<close>

theorem settled_job_rejects_settlement:
  assumes "s = run cs (constructor deployer self)"
    and "isReleased (escrows s jobId) \<or> isRefunded (escrows s jobId)"
    and "c = ReleaseEscrow jobId ph \<or> c = ReleaseWithProof jobId pf xs \<or> c = RefundEscrow jobId reason"
  shows "\<exists>err. dispatch e c s = Inl err \<and> spec_error_of err = AlreadySettled \<and> transact e c s = s"
proof -
  have "ledger_ok s"
    unfolding assms(1) by (rule run_ok)
  then have "record_ok (escrows s jobId)"
    by (simp add: ledger_ok_def)
  with assms(2) have pos: "0 < amount (escrows s jobId)"
    by (simp add: record_ok_def settled_def)
  have ex: "escrowExists jobId s = Inr ()"
    using pos by (simp add: escrowExists_def require_def)
  have "\<exists>err. escrowNotSettled jobId s = Inl err \<and> spec_error_of err = AlreadySettled"
    using assms(2)
    by (cases "isReleased (escrows s jobId)") (simp_all add: escrowNotSettled_def require_def)
  then obtain err where
    ns: "escrowNotSettled jobId s = Inl err" and sp: "spec_error_of err = AlreadySettled"
    by blast
  have "dispatch e c s = Inl err"
    using assms(3) ex ns
    by (auto simp: dispatch_simps releaseEscrow_unfold releaseWithProof_unfold refundEscrow_unfold)
  then show ?thesis
    using sp by (simp add: transact_def settle_def)
qed

theorem settled_job_rejects_settlement_witness:
  "(isReleased (escrows job9_released 9) \<or> isRefunded (escrows job9_released 9))
   \<and> (\<exists>err. dispatch (world 1 5000) (RefundEscrow 9 ''again'') job9_released = Inl err
          \<and> spec_error_of err = AlreadySettled
          \<and> transact (world 1 5000) (RefundEscrow 9 ''again'') job9_released = job9_released)"
proof -
  have reach: "job9_released
      = run [(world 2 1000, CreateEscrow 10 9 3), (world 2 1002, ReleaseEscrow 9 5)] (constructor 1 100)"
    by (simp add: job9_released_def job9_pending_def deployed_def)
  have fl: "isReleased (escrows job9_released 9) \<or> isRefunded (escrows job9_released 9)"
    by (simp add: job9_released_eq)
  show ?thesis
    using fl settled_job_rejects_settlement
      [OF reach fl, of "RefundEscrow 9 ''again''" 5 "[]" "[]" "''again''" "world 1 5000"]
    by simp
qed

subsection \<open>C8: a failed payout\<close>

text \<open>
  Claim C8 says that after a \<open>releaseEscrow\<close> or \<open>refundEscrow\<close> that fails with
  \<open>TransferFailed\<close> the record stays marked settled. The payout is checked by
  \<^verbatim>\<open>require(success, "Transfer failed")\<close>, which reverts the transaction. In the scenario
  no payee accepts a payment: both calls fail with \<open>TransferFailed\<close>, and afterwards job 9
  is pending with neither flag set.
\<close>

theorem failed_transfer_example:
  "isPending 9 job9_pending
   \<and> outcome (world_rejecting 2 1002) (ReleaseEscrow 9 5) job9_pending = Some TransferFailedErr
   \<and> \<not> isReleased (escrows (transact (world_rejecting 2 1002) (ReleaseEscrow 9 5) job9_pending) 9)
   \<and> isPending 9 (transact (world_rejecting 2 1002) (ReleaseEscrow 9 5) job9_pending)
   \<and> outcome (world_rejecting 1 1002) (RefundEscrow 9 ''no proof'') job9_pending = Some TransferFailedErr
   \<and> \<not> isRefunded (escrows (transact (world_rejecting 1 1002) (RefundEscrow 9 ''no proof'') job9_pending) 9)
   \<and> isPending 9 (transact (world_rejecting 1 1002) (RefundEscrow 9 ''no proof'') job9_pending)"
  by (simp add: job9_pending_eq scenario_defs contract_defs)

text \<open>
  Claim C8 as amended. When \<open>releaseEscrow\<close> or \<open>refundEscrow\<close> fails with
  \<open>TransferFailed\<close>, the flag and the balance aggregates had been updated before the
  payout was attempted (the state \<open>s1\<close>), and the failure reverts these updates: the
  storage after the failed call is the storage before it, and the job is still pending.
  What the payee did by calling back before its call failed is reverted with it.
\<close>

theorem failed_transfer_reverts_effects:
  "(releaseEscrow e jobId ph s = Inl TransferFailedErr \<longrightarrow>
      (\<exists>s1. release_effects jobId ph s = Inr s1
         \<and> isReleased (escrows s1 jobId)
         \<and> unat (lockedBalance s1 (buyer (escrows s jobId))) + unat (amount (escrows s jobId))
             = unat (lockedBalance s (buyer (escrows s jobId)))
         \<and> unat (providerEarnings s1 (provider (escrows s jobId)))
             = unat (providerEarnings s (provider (escrows s jobId))) + unat (amount (escrows s jobId))
         \<and> pay_provider e jobId s1 = Inl TransferFailedErr)
      \<and> transact e (ReleaseEscrow jobId ph) s = s
      \<and> isPending jobId (transact e (ReleaseEscrow jobId ph) s))
   \<and> (refundEscrow e jobId reason s = Inl TransferFailedErr \<longrightarrow>
      (\<exists>s1. refund_effects jobId s = Inr s1
         \<and> isRefunded (escrows s1 jobId)
         \<and> unat (lockedBalance s1 (buyer (escrows s jobId))) + unat (amount (escrows s jobId))
             = unat (lockedBalance s (buyer (escrows s jobId)))
         \<and> pay_buyer e jobId s1 = Inl TransferFailedErr)
      \<and> transact e (RefundEscrow jobId reason) s = s
      \<and> isPending jobId (transact e (RefundEscrow jobId reason) s))"
proof -
  have rel: "(\<exists>s1. release_effects jobId ph s = Inr s1
         \<and> isReleased (escrows s1 jobId)
         \<and> unat (lockedBalance s1 (buyer (escrows s jobId))) + unat (amount (escrows s jobId))
             = unat (lockedBalance s (buyer (escrows s jobId)))
         \<and> unat (providerEarnings s1 (provider (escrows s jobId)))
             = unat (providerEarnings s (provider (escrows s jobId))) + unat (amount (escrows s jobId))
         \<and> pay_provider e jobId s1 = Inl TransferFailedErr)
      \<and> transact e (ReleaseEscrow jobId ph) s = s
      \<and> isPending jobId (transact e (ReleaseEscrow jobId ph) s)"
    if fail: "releaseEscrow e jobId ph s = Inl TransferFailedErr"
  proof -
    from releaseEscrow_TransferFailed [OF fail] obtain s1 where
      pend: "isPending jobId s"
      and eff: "release_effects jobId ph s = Inr s1"
      and pay: "pay_provider e jobId s1 = Inl TransferFailedErr"
      by blast
    note r = release_effects_Inr [OF eff]
    have "isReleased (escrows s1 jobId)"
      using r by simp
    moreover have "unat (lockedBalance s1 (buyer (escrows s jobId))) + unat (amount (escrows s jobId))
             = unat (lockedBalance s (buyer (escrows s jobId)))"
      using r by (simp add: unat_checked_sub)
    moreover have "unat (providerEarnings s1 (provider (escrows s jobId)))
             = unat (providerEarnings s (provider (escrows s jobId))) + unat (amount (escrows s jobId))"
      using r by (simp add: unat_checked_add)
    moreover have "transact e (ReleaseEscrow jobId ph) s = s"
      using fail by (simp add: transact_def settle_def dispatch_simps)
    ultimately show ?thesis
      using eff pay pend by simp
  qed
  have ref: "(\<exists>s1. refund_effects jobId s = Inr s1
         \<and> isRefunded (escrows s1 jobId)
         \<and> unat (lockedBalance s1 (buyer (escrows s jobId))) + unat (amount (escrows s jobId))
             = unat (lockedBalance s (buyer (escrows s jobId)))
         \<and> pay_buyer e jobId s1 = Inl TransferFailedErr)
      \<and> transact e (RefundEscrow jobId reason) s = s
      \<and> isPending jobId (transact e (RefundEscrow jobId reason) s)"
    if fail: "refundEscrow e jobId reason s = Inl TransferFailedErr"
  proof -
    from refundEscrow_TransferFailed [OF fail] obtain s1 where
      pend: "isPending jobId s"
      and eff: "refund_effects jobId s = Inr s1"
      and pay: "pay_buyer e jobId s1 = Inl TransferFailedErr"
      by blast
    note r = refund_effects_Inr [OF eff]
    have "isRefunded (escrows s1 jobId)"
      using r by simp
    moreover have "unat (lockedBalance s1 (buyer (escrows s jobId))) + unat (amount (escrows s jobId))
             = unat (lockedBalance s (buyer (escrows s jobId)))"
      using r by (simp add: unat_checked_sub)
    moreover have "transact e (RefundEscrow jobId reason) s = s"
      using fail by (simp add: transact_def settle_def dispatch_simps)
    ultimately show ?thesis
      using eff pay pend by simp
  qed
  from rel ref show ?thesis by blast
qed

theorem failed_transfer_reverts_effects_witness:
  "releaseEscrow (world_rejecting 2 1002) 9 5 job9_pending = Inl TransferFailedErr
   \<and> (\<exists>s1. release_effects 9 5 job9_pending = Inr s1 \<and> isReleased (escrows s1 9)
         \<and> pay_provider (world_rejecting 2 1002) 9 s1 = Inl TransferFailedErr)
   \<and> transact (world_rejecting 2 1002) (ReleaseEscrow 9 5) job9_pending = job9_pending
   \<and> refundEscrow (world_rejecting 1 1002) 9 ''no proof'' job9_pending = Inl TransferFailedErr
   \<and> (\<exists>s1. refund_effects 9 job9_pending = Inr s1 \<and> isRefunded (escrows s1 9)
         \<and> pay_buyer (world_rejecting 1 1002) 9 s1 = Inl TransferFailedErr)
   \<and> transact (world_rejecting 1 1002) (RefundEscrow 9 ''no proof'') job9_pending = job9_pending"
proof -
  have f1: "releaseEscrow (world_rejecting 2 1002) 9 5 job9_pending = Inl TransferFailedErr"
    by (simp add: job9_pending_eq scenario_defs contract_defs)
  have f2: "refundEscrow (world_rejecting 1 1002) 9 ''no proof'' job9_pending = Inl TransferFailedErr"
    by (simp add: job9_pending_eq scenario_defs contract_defs)
  note t1 = failed_transfer_reverts_effects
    [where e = "world_rejecting 2 1002" and jobId = 9 and ph = 5 and s = job9_pending,
      THEN conjunct1, rule_format, OF f1]
  note t2 = failed_transfer_reverts_effects
    [where e = "world_rejecting 1 1002" and jobId = 9 and reason = "''no proof''" and s = job9_pending,
      THEN conjunct2, rule_format, OF f2]
  from f1 f2 t1 t2 show ?thesis
    by blast
qed

subsection \<open>C9: the emergency withdrawal\<close>

text \<open>
  Claim C9 says that the sweep of the administrator leaves the funds that back pending
  jobs in the contract; the source comments the function as
  \<^verbatim>\<open>Emergency withdraw (only for stuck funds)\<close>. The function sends
  \<^verbatim>\<open>address(this).balance\<close>, the whole balance. In the scenario job 9 is pending and backed
  by 10 wei: the withdrawal succeeds and leaves balance 0, the job is still pending with
  10 wei locked for the buyer, and both the release and the refund of the job fail
  afterwards because the contract cannot pay.
\<close>

theorem emergencyWithdraw_takes_escrowed_funds:
  "isPending 9 job9_pending
   \<and> this_balance job9_pending = 10
   \<and> lockedBalance job9_pending 2 = 10
   \<and> outcome (world 1 2000) EmergencyWithdraw job9_pending = None
   \<and> this_balance (transact (world 1 2000) EmergencyWithdraw job9_pending) = 0
   \<and> isPending 9 (transact (world 1 2000) EmergencyWithdraw job9_pending)
   \<and> lockedBalance (transact (world 1 2000) EmergencyWithdraw job9_pending) 2 = 10
   \<and> outcome (world 2 3000) (ReleaseEscrow 9 5)
        (transact (world 1 2000) EmergencyWithdraw job9_pending) = Some TransferFailedErr
   \<and> outcome (world 1 90000) (RefundEscrow 9 ''no proof'')
        (transact (world 1 2000) EmergencyWithdraw job9_pending) = Some TransferFailedErr"
  by (simp add: job9_pending_eq scenario_defs contract_defs)

subsection \<open>C10: releaseWithProof does not look at the caller\<close>

text \<open>
  Claim C10. \<open>releaseWithProof\<close> gives the same result, error or new storage, for any two
  callers on the same storage with the same arguments and the same behaviour of the
  outside world, calls back into the contract included. In particular, whenever the call succeeds for the buyer of the job it
  succeeds with the same storage for any other caller, settling a job that was pending.
\<close>

theorem releaseWithProof_ignores_caller:
  "releaseWithProof (e\<lparr>msg_sender := a\<rparr>) jobId pf xs s
     = releaseWithProof (e\<lparr>msg_sender := b\<rparr>) jobId pf xs s
   \<and> (releaseWithProof (e\<lparr>msg_sender := buyer (escrows s jobId)\<rparr>) jobId pf xs s = Inr s'
        \<longrightarrow> releaseWithProof (e\<lparr>msg_sender := b\<rparr>) jobId pf xs s = Inr s'
            \<and> isPending jobId s \<and> isReleased (escrows s' jobId))"
proof -
  have same: "releaseWithProof (e\<lparr>msg_sender := c\<rparr>) jobId pf xs s
                = releaseWithProof (e\<lparr>msg_sender := d\<rparr>) jobId pf xs s" for c d
    by (simp add: releaseWithProof_caller)
  have "isPending jobId s \<and> isReleased (escrows s' jobId)"
    if ok: "releaseWithProof (e\<lparr>msg_sender := b\<rparr>) jobId pf xs s = Inr s'"
  proof -
    from releaseWithProof_Inr [OF ok] obtain sv s1 where
      pend: "0 < amount (escrows s jobId)" "\<not> settled (escrows s jobId)"
      and sv: "sv = run_calls (verifier_calls (e\<lparr>msg_sender := b\<rparr>)) (e\<lparr>msg_sender := b\<rparr>) s"
      and eff: "release_effects jobId (keccak256 (e\<lparr>msg_sender := b\<rparr>) pf) sv = Inr s1"
      and pay: "pay_provider (e\<lparr>msg_sender := b\<rparr>) jobId s1 = Inr s'"
      by blast
    note r = release_effects_Inr [OF eff]
    have "amount (escrows sv jobId) = amount (escrows s jobId)"
      unfolding sv using run_calls_evolves pend(1) by (rule ledger_evolves_amount)
    then have "0 < amount (escrows s1 jobId)" "settled (escrows s1 jobId)"
      "isReleased (escrows s1 jobId)"
      using r pend(1) by (simp_all add: settled_def)
    moreover from this have "escrows s' jobId = escrows s1 jobId"
      using pay_provider_evolves [OF pay] by (intro ledger_evolves_settled)
    ultimately show ?thesis
      using pend by (simp add: isPending_def settled_def)
  qed
  with same [of a b] same [of "buyer (escrows s jobId)" b] show ?thesis
    by simp
qed

text \<open>
  In the scenario the caller, address 5, is neither the buyer nor the owner, and settles
  the pending job 9.
\<close>

theorem releaseWithProof_ignores_caller_witness:
  "5 \<noteq> buyer (escrows job9_with_verifier 9) \<and> 5 \<noteq> owner job9_with_verifier
   \<and> (\<exists>s'. releaseWithProof ((world 2 3000)\<lparr>msg_sender := 5\<rparr>) 9 [1, 2] [] job9_with_verifier = Inr s'
         \<and> isPending 9 job9_with_verifier \<and> isReleased (escrows s' 9))"
proof -
  have who: "buyer (escrows job9_with_verifier 9) = 2" "owner job9_with_verifier = 1"
    by (simp_all add: job9_with_verifier_eq job9_pending_eq)
  obtain s' where call:
    "releaseWithProof ((world 2 3000)\<lparr>msg_sender := buyer (escrows job9_with_verifier 9)\<rparr>)
       9 [1, 2] [] job9_with_verifier = Inr s'"
    unfolding who
    by (simp add: job9_with_verifier_eq job9_pending_eq scenario_defs contract_defs)
  have "releaseWithProof ((world 2 3000)\<lparr>msg_sender := 5\<rparr>) 9 [1, 2] [] job9_with_verifier = Inr s'
          \<and> isPending 9 job9_with_verifier \<and> isReleased (escrows s' 9)"
    using releaseWithProof_ignores_caller
      [where e = "world 2 3000" and a = 2 and b = 5 and jobId = 9 and pf = "[1, 2]" and xs = "[]"
         and s = job9_with_verifier and s' = s', THEN conjunct2, rule_format, OF call] .
  then show ?thesis
    unfolding who by simp
qed

end
